theory Spec2Isabelle
  imports Complex_Main
begin

section \<open>Data model of the room store\<close>

text \<open>
  The store (\<open>roomStore\<close>, a zustand store) keeps the room, the placed furniture, the
  placed scanned models, the selection, the drag flag, the detail-mode target and the undo
  stack. JavaScript numbers are modelled as real numbers, which cover the finite values.
  Comparisons, \<open>max\<close>, \<open>min\<close> and \<open>Math.round\<close> are exact on them. The arithmetic of
  the clamp, of the boxes and of the arrangement is modelled exactly; the arithmetic of grid
  snapping is modelled with the rounding of double precision, since the result of snapping
  depends on it. Where an operation of the source leaves the finite numbers (a division by
  zero, an overflow) the model says so with \<open>None\<close>. Strings are HOL strings. Record
  fields keep the source's names, with a prefix where two interfaces share a field name or
  the name is taken in HOL (\<open>id\<close>, \<open>type\<close>, \<open>length\<close>).
\<close>

type_synonym position = "real \<times> real \<times> real"

datatype BookOrientation = Upright | Flat | Faceout

record Dimensions =
  width :: real
  height :: real
  depth :: real

record FurnitureItem =
  item_id :: string
  item_type :: string
  name :: string
  position :: position
  rotation :: real
  dimensions :: Dimensions
  color :: string
  orientation :: "BookOrientation option"
  spineColor :: "string option"
  sizeVariant :: "real option"

record PlacedScannedItem =
  scan_id :: string
  makerspaceItemId :: string
  scan_name :: string
  scan_position :: position
  scan_rotation :: real
  scan_dimensions :: Dimensions
  blobUrl :: string

record RoomDimensions =
  room_width :: real
  room_length :: real
  room_height :: real

datatype SelectedType = SelFurniture | SelScanned

record RoomState =
  roomDimensions :: RoomDimensions
  furniture :: "FurnitureItem list"
  scannedItems :: "PlacedScannedItem list"
  selectedId :: "string option"
  selectedType :: "SelectedType option"
  isDragging :: bool
  detailModeTarget :: "string option"
  undoStack :: "FurnitureItem list list"
  canUndo :: bool
  gridSize :: real
  showGrid :: bool

definition initialState :: RoomState where
  "initialState =
     \<lparr> roomDimensions = \<lparr> room_width = 5, room_length = 4, room_height = 2.8 \<rparr>,
       furniture = [],
       scannedItems = [],
       selectedId = None,
       selectedType = None,
       isDragging = False,
       detailModeTarget = None,
       undoStack = [],
       canUndo = False,
       gridSize = 0.1,
       showGrid = True \<rparr>"

section \<open>Store actions\<close>

definition isBookType :: "string \<Rightarrow> bool" where
  "isBookType t = (t \<in> set [''book'', ''book_stack'', ''manga''])"

text \<open>
  \<open>addFurniture\<close> draws an id, a spine colour and a size variant at random; the three
  drawn values are parameters here. \<open>a || b\<close> keeps \<open>a\<close> unless it is falsy: a missing
  field, the empty string or the number zero.
\<close>

definition addFurniture ::
  "string \<Rightarrow> string \<Rightarrow> real \<Rightarrow> FurnitureItem \<Rightarrow> RoomState \<Rightarrow> RoomState" where
  "addFurniture newId randomSpine randomVariant item st =
     (let newItem = item\<lparr>item_id := newId\<rparr>;
          newItem' =
            (if isBookType (item_type item)
             then newItem\<lparr>
                    orientation :=
                      (case orientation newItem of None \<Rightarrow> Some Upright | Some v \<Rightarrow> Some v),
                    spineColor :=
                      (case spineColor newItem of
                         None \<Rightarrow> Some randomSpine
                       | Some c \<Rightarrow> if c = [] then Some randomSpine else Some c),
                    sizeVariant :=
                      (case sizeVariant newItem of
                         None \<Rightarrow> Some randomVariant
                       | Some v \<Rightarrow> if v = 0 then Some randomVariant else Some v)\<rparr>
             else newItem)
      in st\<lparr>furniture := furniture st @ [newItem']\<rparr>)"

definition removeFurniture :: "string \<Rightarrow> RoomState \<Rightarrow> RoomState" where
  "removeFurniture i st =
     st\<lparr>furniture := filter (\<lambda>f. item_id f \<noteq> i) (furniture st),
        selectedId := (if selectedId st = Some i then None else selectedId st)\<rparr>"

definition updateFurniturePosition :: "string \<Rightarrow> position \<Rightarrow> RoomState \<Rightarrow> RoomState" where
  "updateFurniturePosition i p st =
     st\<lparr>furniture := map (\<lambda>f. if item_id f = i then f\<lparr>position := p\<rparr> else f) (furniture st)\<rparr>"

definition updateFurnitureRotation :: "string \<Rightarrow> real \<Rightarrow> RoomState \<Rightarrow> RoomState" where
  "updateFurnitureRotation i r st =
     st\<lparr>furniture := map (\<lambda>f. if item_id f = i then f\<lparr>rotation := r\<rparr> else f) (furniture st)\<rparr>"

text \<open>The dimension update is partial: a field that is absent keeps its value.\<close>

definition updateFurnitureDimensions ::
  "string \<Rightarrow> real option \<Rightarrow> real option \<Rightarrow> real option \<Rightarrow> RoomState \<Rightarrow> RoomState" where
  "updateFurnitureDimensions i w h d st =
     st\<lparr>furniture :=
          map (\<lambda>f. if item_id f = i
                    then f\<lparr>dimensions :=
                           \<lparr> width = (case w of None \<Rightarrow> width (dimensions f) | Some v \<Rightarrow> v),
                             height = (case h of None \<Rightarrow> height (dimensions f) | Some v \<Rightarrow> v),
                             depth = (case d of None \<Rightarrow> depth (dimensions f) | Some v \<Rightarrow> v) \<rparr>\<rparr>
                    else f) (furniture st)\<rparr>"

definition updateFurnitureColor :: "string \<Rightarrow> string \<Rightarrow> RoomState \<Rightarrow> RoomState" where
  "updateFurnitureColor i c st =
     st\<lparr>furniture := map (\<lambda>f. if item_id f = i then f\<lparr>color := c\<rparr> else f) (furniture st)\<rparr>"

definition updateFurnitureOrientation ::
  "string \<Rightarrow> BookOrientation \<Rightarrow> RoomState \<Rightarrow> RoomState" where
  "updateFurnitureOrientation i v st =
     st\<lparr>furniture :=
          map (\<lambda>f. if item_id f = i then f\<lparr>orientation := Some v\<rparr> else f) (furniture st)\<rparr>"

definition updateFurnitureSpineColor :: "string \<Rightarrow> string \<Rightarrow> RoomState \<Rightarrow> RoomState" where
  "updateFurnitureSpineColor i c st =
     st\<lparr>furniture :=
          map (\<lambda>f. if item_id f = i then f\<lparr>spineColor := Some c\<rparr> else f) (furniture st)\<rparr>"

definition updateScannedItemPosition :: "string \<Rightarrow> position \<Rightarrow> RoomState \<Rightarrow> RoomState" where
  "updateScannedItemPosition i p st =
     st\<lparr>scannedItems :=
          map (\<lambda>s. if scan_id s = i then s\<lparr>scan_position := p\<rparr> else s) (scannedItems st)\<rparr>"

definition clearRoom :: "RoomState \<Rightarrow> RoomState" where
  "clearRoom st =
     st\<lparr>furniture := [], scannedItems := [], selectedId := None, selectedType := None\<rparr>"

definition setSelectedId :: "string option \<Rightarrow> SelectedType \<Rightarrow> RoomState \<Rightarrow> RoomState" where
  "setSelectedId i ty st =
     st\<lparr>selectedId := i, selectedType := (if i \<noteq> None \<and> i \<noteq> Some [] then Some ty else None)\<rparr>"

definition setIsDragging :: "bool \<Rightarrow> RoomState \<Rightarrow> RoomState" where
  "setIsDragging b st = st\<lparr>isDragging := b\<rparr>"

subsection \<open>Undo\<close>

text \<open>
  \<open>saveForUndo\<close> clones the furniture through \<open>JSON.parse(JSON.stringify(...))\<close>. The
  values of the model are immutable and its numbers finite, so the clone is the same list.
  \<open>[...stack, snapshot].slice(-20)\<close> keeps the last twenty entries: it starts at
  \<open>max (length - 20) 0\<close>, which is what the truncating subtraction of \<open>nat\<close> computes.
\<close>

definition deepClone :: "FurnitureItem list \<Rightarrow> FurnitureItem list" where
  "deepClone fs = fs"

definition sliceLast :: "nat \<Rightarrow> 'a list \<Rightarrow> 'a list" where
  "sliceLast n xs = drop (length xs - n) xs"

definition saveForUndo :: "RoomState \<Rightarrow> RoomState" where
  "saveForUndo st =
     (let snapshot = deepClone (furniture st);
          newStack = sliceLast 20 (undoStack st @ [snapshot])
      in st\<lparr>undoStack := newStack, canUndo := True\<rparr>)"

text \<open>
  \<open>undo\<close> returns the state as it is when the stack is empty. Otherwise \<open>pop\<close> takes the
  last entry; an array is never falsy, so \<open>previousState || state.furniture\<close> is the
  popped entry.
\<close>

definition undo :: "RoomState \<Rightarrow> RoomState" where
  "undo st =
     (if length (undoStack st) = 0 then st
      else
        let newStack = butlast (undoStack st);
            previousState = last (undoStack st)
        in st\<lparr>furniture := previousState,
              undoStack := newStack,
              canUndo := (length newStack > 0)\<rparr>)"

subsection \<open>Sequences of store operations\<close>

datatype Action =
    AddFurniture string string real FurnitureItem
  | RemoveFurniture string
  | UpdateFurniturePosition string position
  | UpdateFurnitureRotation string real
  | UpdateFurnitureDimensions string "real option" "real option" "real option"
  | UpdateFurnitureColor string string
  | UpdateFurnitureOrientation string BookOrientation
  | UpdateFurnitureSpineColor string string
  | UpdateScannedItemPosition string position
  | ClearRoom

fun applyAction :: "Action \<Rightarrow> RoomState \<Rightarrow> RoomState" where
  "applyAction (AddFurniture i c v item) st = addFurniture i c v item st"
| "applyAction (RemoveFurniture i) st = removeFurniture i st"
| "applyAction (UpdateFurniturePosition i p) st = updateFurniturePosition i p st"
| "applyAction (UpdateFurnitureRotation i r) st = updateFurnitureRotation i r st"
| "applyAction (UpdateFurnitureDimensions i w h d) st = updateFurnitureDimensions i w h d st"
| "applyAction (UpdateFurnitureColor i c) st = updateFurnitureColor i c st"
| "applyAction (UpdateFurnitureOrientation i v) st = updateFurnitureOrientation i v st"
| "applyAction (UpdateFurnitureSpineColor i c) st = updateFurnitureSpineColor i c st"
| "applyAction (UpdateScannedItemPosition i p) st = updateScannedItemPosition i p st"
| "applyAction ClearRoom st = clearRoom st"

datatype StoreOp = SaveForUndo | Undo | Mutate Action

fun execOp :: "StoreOp \<Rightarrow> RoomState \<Rightarrow> RoomState" where
  "execOp SaveForUndo st = saveForUndo st"
| "execOp Undo st = undo st"
| "execOp (Mutate a) st = applyAction a st"

fun execOps :: "StoreOp list \<Rightarrow> RoomState \<Rightarrow> RoomState" where
  "execOps [] st = st"
| "execOps (op # ops) st = execOps ops (execOp op st)"

text \<open>Every mutating action is preceded by its snapshot, as the callers do.\<close>

fun snapshotAndApply :: "Action list \<Rightarrow> RoomState \<Rightarrow> RoomState" where
  "snapshotAndApply [] st = st"
| "snapshotAndApply (a # as) st = snapshotAndApply as (applyAction a (saveForUndo st))"

definition undoView ::
  "RoomState \<Rightarrow> FurnitureItem list \<times> FurnitureItem list list \<times> bool" where
  "undoView st = (furniture st, undoStack st, canUndo st)"

section \<open>Placement of a dragged item (DraggableFurniture)\<close>

definition posX :: "position \<Rightarrow> real" where
  "posX p = fst p"

definition posY :: "position \<Rightarrow> real" where
  "posY p = fst (snd p)"

definition posZ :: "position \<Rightarrow> real" where
  "posZ p = snd (snd p)"

definition smallTypes :: "string list" where
  "smallTypes =
     [''book'', ''book_stack'', ''manga'', ''gojo_manga'', ''kaws_figure'',
      ''murakami_flower'', ''picture_frame'', ''vase'', ''lamp_small'', ''clock'',
      ''trophy'', ''plant'']"

definition isSmallItem :: "string \<Rightarrow> bool" where
  "isSmallItem t = (t \<in> set smallTypes)"

subsection \<open>Double-precision arithmetic\<close>

text \<open>
  A JavaScript number is an IEEE 754 double: 53 significant bits, exponents of the last
  place from \<open>-1074\<close> on, rounding to the nearest double with ties to the even one.
  \<^term>\<open>fl x\<close> is the double an operation returns whose exact result is \<open>x\<close>, and
  \<open>None\<close> when that double is not finite (the rounded value reaches \<open>2 ^ 1024\<close>).
\<close>

definition roundHalfEven :: "real \<Rightarrow> int" where
  "roundHalfEven y =
     (let n = \<lfloor>y\<rfloor>; d = y - of_int n
      in if d < 1 / 2 then n else if 1 / 2 < d then n + 1 else if even n then n else n + 1)"

definition ulpExponent :: "real \<Rightarrow> int" where
  "ulpExponent x = max (\<lfloor>log 2 \<bar>x\<bar>\<rfloor> - 52) (- 1074)"

definition fl :: "real \<Rightarrow> real option" where
  "fl x =
     (if x = 0 then Some 0
      else
        let e = ulpExponent x;
            r = of_int (roundHalfEven (x / 2 powr (of_int e))) * 2 powr (of_int e)
        in if 2 ^ 1024 \<le> \<bar>r\<bar> then None else Some r)"

subsection \<open>Snapping and clamping\<close>

text \<open>
  The cell of the grid, \<open>fineGrid\<close> in the body of \<open>snapToGrid\<close>: the double nearest
  to 0.005 for a small item, a quarter of the grid size for the others.
\<close>

definition fineGrid :: "RoomState \<Rightarrow> FurnitureItem \<Rightarrow> real option" where
  "fineGrid st item =
     (let isSmall = isSmallItem (item_type item)
      in if isSmall then fl 0.005 else fl (gridSize st / 4))"

text \<open>
  \<open>Math.round(value / fineGrid) * fineGrid\<close>: the quotient is rounded to a double,
  \<open>Math.round\<close> rounds that double half up, as \<^term>\<open>round\<close> does, and the product is
  rounded to a double. With a cell of zero the quotient is not finite and the source's
  product is \<open>NaN\<close>; a quotient or a product that overflows is infinite: the result
  \<open>None\<close>.
\<close>

definition snapToGrid :: "RoomState \<Rightarrow> FurnitureItem \<Rightarrow> real \<Rightarrow> real option" where
  "snapToGrid st item v =
     (case fineGrid st item of
        None \<Rightarrow> None
      | Some cell \<Rightarrow>
          if cell = 0 then None
          else
            (case fl (v / cell) of
               None \<Rightarrow> None
             | Some q \<Rightarrow> fl (real_of_int (round q) * cell)))"

text \<open>
  \<open>clampPosition\<close> computes the two rotation-projected half extents of the item in its
  body; they are named functions here, with the body's local names.
\<close>

definition effectiveHalfWidth :: "FurnitureItem \<Rightarrow> real" where
  "effectiveHalfWidth item =
     (let halfWidth = width (dimensions item) / 2;
          halfDepth = depth (dimensions item) / 2;
          rot = (rotation item * pi) / 180;
          cosAbs = \<bar>cos rot\<bar>;
          sinAbs = \<bar>sin rot\<bar>
      in halfWidth * cosAbs + halfDepth * sinAbs)"

definition effectiveHalfDepth :: "FurnitureItem \<Rightarrow> real" where
  "effectiveHalfDepth item =
     (let halfWidth = width (dimensions item) / 2;
          halfDepth = depth (dimensions item) / 2;
          rot = (rotation item * pi) / 180;
          cosAbs = \<bar>cos rot\<bar>;
          sinAbs = \<bar>sin rot\<bar>
      in halfWidth * sinAbs + halfDepth * cosAbs)"

definition clampPosition :: "RoomState \<Rightarrow> FurnitureItem \<Rightarrow> real \<Rightarrow> real \<Rightarrow> real \<times> real" where
  "clampPosition st item x z =
     (let roomHalfWidth = room_width (roomDimensions st) / 2;
          roomHalfLength = room_length (roomDimensions st) / 2;
          clampedX = max (- roomHalfWidth + effectiveHalfWidth item)
                         (min (roomHalfWidth - effectiveHalfWidth item) x);
          clampedZ = max (- roomHalfLength + effectiveHalfDepth item)
                         (min (roomHalfLength - effectiveHalfDepth item) z)
      in (clampedX, clampedZ))"

subsection \<open>Collision check\<close>

record Box =
  minX :: real
  maxX :: real
  minY :: real
  maxY :: real
  minZ :: real
  maxZ :: real

definition myBox :: "FurnitureItem \<Rightarrow> real \<Rightarrow> real \<Rightarrow> real \<Rightarrow> Box" where
  "myBox item x y z =
     (let rot = (rotation item * pi) / 180;
          cosAbs = \<bar>cos rot\<bar>;
          sinAbs = \<bar>sin rot\<bar>;
          isMyItemSmall = isSmallItem (item_type item);
          shrink = (if isMyItemSmall then 0.5 else 0.95);
          effectiveWidth =
            (width (dimensions item) * cosAbs + depth (dimensions item) * sinAbs) * shrink;
          effectiveDepth =
            (width (dimensions item) * sinAbs + depth (dimensions item) * cosAbs) * shrink
      in \<lparr> minX = x - effectiveWidth / 2,
           maxX = x + effectiveWidth / 2,
           minY = y,
           maxY = y + height (dimensions item) * shrink,
           minZ = z - effectiveDepth / 2,
           maxZ = z + effectiveDepth / 2 \<rparr>)"

definition otherBox :: "FurnitureItem \<Rightarrow> Box" where
  "otherBox other =
     (let isOtherSmall = isSmallItem (item_type other);
          otherShrink = (if isOtherSmall then 0.5 else 0.95);
          otherRotation = (rotation other * pi) / 180;
          otherCos = \<bar>cos otherRotation\<bar>;
          otherSin = \<bar>sin otherRotation\<bar>;
          otherEffectiveWidth =
            (width (dimensions other) * otherCos + depth (dimensions other) * otherSin)
              * otherShrink;
          otherEffectiveDepth =
            (width (dimensions other) * otherSin + depth (dimensions other) * otherCos)
              * otherShrink
      in \<lparr> minX = posX (position other) - otherEffectiveWidth / 2,
           maxX = posX (position other) + otherEffectiveWidth / 2,
           minY = posY (position other),
           maxY = posY (position other) + height (dimensions other) * otherShrink,
           minZ = posZ (position other) - otherEffectiveDepth / 2,
           maxZ = posZ (position other) + otherEffectiveDepth / 2 \<rparr>)"

definition boxesOverlap :: "Box \<Rightarrow> Box \<Rightarrow> bool" where
  "boxesOverlap a b =
     (minX a < maxX b \<and> maxX a > minX b \<and>
      minY a < maxY b \<and> maxY a > minY b \<and>
      minZ a < maxZ b \<and> maxZ a > minZ b)"

text \<open>
  The loop over the furniture: a \<open>continue\<close> goes on with the rest of the list, the
  \<open>return true\<close> ends it.
\<close>

fun collisionLoop :: "RoomState \<Rightarrow> FurnitureItem \<Rightarrow> Box \<Rightarrow> FurnitureItem list \<Rightarrow> bool" where
  "collisionLoop st item b [] = False"
| "collisionLoop st item b (other # rest) =
     (if item_id other = item_id item then collisionLoop st item b rest
      else if detailModeTarget st \<noteq> None \<and> Some (item_id other) = detailModeTarget st
        then collisionLoop st item b rest
      else if isSmallItem (item_type item) \<and> isSmallItem (item_type other)
        then collisionLoop st item b rest
      else if boxesOverlap b (otherBox other) then True
      else collisionLoop st item b rest)"

definition checkCollision :: "RoomState \<Rightarrow> FurnitureItem \<Rightarrow> real \<Rightarrow> real \<Rightarrow> real \<Rightarrow> bool" where
  "checkCollision st item x y z = collisionLoop st item (myBox item x y z) (furniture st)"

text \<open>
  The effective box in the words of the design: the footprint projected by the yaw, times
  the shrink factor of the size class, centred on \<open>(x, z)\<close>, with the shrunk height above
  \<open>y\<close>.
\<close>

definition shrinkFactor :: "FurnitureItem \<Rightarrow> real" where
  "shrinkFactor it = (if isSmallItem (item_type it) then 0.5 else 0.95)"

definition yaw :: "FurnitureItem \<Rightarrow> real" where
  "yaw it = rotation it * pi / 180"

definition effWidth :: "FurnitureItem \<Rightarrow> real" where
  "effWidth it =
     (width (dimensions it) * \<bar>cos (yaw it)\<bar> + depth (dimensions it) * \<bar>sin (yaw it)\<bar>)
       * shrinkFactor it"

definition effDepth :: "FurnitureItem \<Rightarrow> real" where
  "effDepth it =
     (width (dimensions it) * \<bar>sin (yaw it)\<bar> + depth (dimensions it) * \<bar>cos (yaw it)\<bar>)
       * shrinkFactor it"

definition effectiveBox :: "FurnitureItem \<Rightarrow> position \<Rightarrow> Box" where
  "effectiveBox it p =
     \<lparr> minX = posX p - effWidth it / 2,
       maxX = posX p + effWidth it / 2,
       minY = posY p,
       maxY = posY p + height (dimensions it) * shrinkFactor it,
       minZ = posZ p - effDepth it / 2,
       maxZ = posZ p + effDepth it / 2 \<rparr>"

text \<open>
  The items a candidate is tested against, in the words of the design: every other item,
  but not the host in detail mode, and not a small item when the candidate is small.
\<close>

definition eligible :: "RoomState \<Rightarrow> FurnitureItem \<Rightarrow> FurnitureItem \<Rightarrow> bool" where
  "eligible st item other =
     (item_id other \<noteq> item_id item \<and>
      detailModeTarget st \<noteq> Some (item_id other) \<and>
      \<not> (isSmallItem (item_type item) \<and> isSmallItem (item_type other)))"

subsection \<open>The drag handler\<close>

text \<open>
  The gesture library calls the handler with the flags \<open>active\<close> and \<open>first\<close> and the
  value \<open>memo\<close> the handler returned before. \<open>memo\<close> is \<open>None\<close> when there is no
  \<open>memo?.startPos\<close>. The point where the pointer ray meets the plane at the item's height
  comes from the renderer and is a field of the gesture state. The component keeps a
  drag flag and a collision flag of its own; the placement sound is an output.
\<close>

record Gesture =
  active :: bool
  first :: bool
  memo :: "position option"
  pointerPos :: "(real \<times> real) option"

record LocalState =
  localDragging :: bool
  hasCollision :: bool

record HandlerResult =
  store :: RoomState
  localState :: LocalState
  memoOut :: "position option"
  placeSound :: bool

text \<open>
  The handler reads the store as it was rendered (\<open>st\<close>) and the item as its component
  got it (\<open>item\<close>), and writes to the store through the store's actions.
\<close>

definition targetFurniture :: "RoomState \<Rightarrow> FurnitureItem option" where
  "targetFurniture st = find (\<lambda>f. Some (item_id f) = detailModeTarget st) (furniture st)"

text \<open>
  The position a pointer move writes. The result is \<open>None\<close> when a snapped coordinate is
  not a finite number: the source then writes \<open>NaN\<close> or an infinity, which is not among
  the model's numbers.
\<close>

definition dragMove ::
  "FurnitureItem \<Rightarrow> real \<times> real \<Rightarrow> RoomState \<Rightarrow> (real \<times> real \<times> real) option" where
  "dragMove item pos st =
     (case (snapToGrid st item (fst pos), snapToGrid st item (snd pos)) of
        (Some snappedX, Some snappedZ) \<Rightarrow>
          let currentY = posY (position item);
              (newX, newZ) =
                (case (if detailModeTarget st \<noteq> None then targetFurniture st else None) of
                   Some target \<Rightarrow>
                     let halfW = width (dimensions target) / 2
                                   - width (dimensions item) / 2 - 0.02;
                         halfD = depth (dimensions target) / 2
                                   - depth (dimensions item) / 2 - 0.02
                     in (max (posX (position target) - halfW)
                             (min (posX (position target) + halfW) snappedX),
                         max (posZ (position target) - halfD)
                             (min (posZ (position target) + halfD) snappedZ))
                 | None \<Rightarrow> clampPosition st item snappedX snappedZ)
          in Some (newX, currentY, newZ)
      | _ \<Rightarrow> None)"

definition dragHandler ::
  "FurnitureItem \<Rightarrow> Gesture \<Rightarrow> RoomState \<Rightarrow> LocalState \<Rightarrow> HandlerResult option" where
  "dragHandler item g st loc =
     (if first g then
        Some \<lparr> store = setSelectedId (Some (item_id item)) SelFurniture (setIsDragging True st),
               localState = loc\<lparr>localDragging := True\<rparr>,
               memoOut = Some (position item),
               placeSound = False \<rparr>
      else if \<not> active g then
        let collision = checkCollision st item (posX (position item)) (posY (position item))
                          (posZ (position item));
            (st1, sound) =
              (if collision \<and> memo g \<noteq> None
               then (updateFurniturePosition (item_id item) (the (memo g)) st, False)
               else (st, True))
        in Some \<lparr> store = setIsDragging False st1,
                  localState = \<lparr> localDragging = False, hasCollision = False \<rparr>,
                  memoOut = memo g,
                  placeSound = sound \<rparr>
      else
        (case pointerPos g of
           None \<Rightarrow>
             Some \<lparr> store = st, localState = loc, memoOut = memo g, placeSound = False \<rparr>
         | Some pos \<Rightarrow>
             (case dragMove item pos st of
                None \<Rightarrow> None
              | Some (newX, currentY, newZ) \<Rightarrow>
                  Some \<lparr> store = updateFurniturePosition (item_id item) (newX, currentY, newZ) st,
                         localState = loc\<lparr>hasCollision := checkCollision st item newX currentY newZ\<rparr>,
                         memoOut = memo g,
                         placeSound = False \<rparr>)))"

subsection \<open>A drag from start to release\<close>

text \<open>
  The component of an item is keyed by the item's id and gets the furniture entry with
  that id. A drag is the handler's first call, one call for every pointer move, and the
  call at release (pointer-up or pointer-cancel); each call gets as \<open>memo\<close> what the call
  before it returned, and reads the store and the component state the calls before it
  left. A pointer move comes with the point where the pointer ray meets the plane, or
  with none.
\<close>

definition renderedItem :: "string \<Rightarrow> RoomState \<Rightarrow> FurnitureItem option" where
  "renderedItem i st = find (\<lambda>f. item_id f = i) (furniture st)"

definition dragStart :: "string \<Rightarrow> RoomState \<Rightarrow> LocalState \<Rightarrow> HandlerResult option" where
  "dragStart i st loc =
     (case renderedItem i st of
        None \<Rightarrow> None
      | Some item \<Rightarrow>
          dragHandler item \<lparr> active = True, first = True, memo = None, pointerPos = None \<rparr>
            st loc)"

fun dragMoves ::
  "string \<Rightarrow> (real \<times> real) option list \<Rightarrow> HandlerResult \<Rightarrow> HandlerResult option" where
  "dragMoves i [] r = Some r"
| "dragMoves i (p # ps) r =
     (case renderedItem i (store r) of
        None \<Rightarrow> None
      | Some item \<Rightarrow>
          (case dragHandler item
                  \<lparr> active = True, first = False, memo = memoOut r, pointerPos = p \<rparr>
                  (store r) (localState r) of
             None \<Rightarrow> None
           | Some r' \<Rightarrow> dragMoves i ps r'))"

definition dragRelease :: "string \<Rightarrow> HandlerResult \<Rightarrow> HandlerResult option" where
  "dragRelease i r =
     (case renderedItem i (store r) of
        None \<Rightarrow> None
      | Some item \<Rightarrow>
          dragHandler item
            \<lparr> active = False, first = False, memo = memoOut r, pointerPos = None \<rparr>
            (store r) (localState r))"

definition dragSession ::
  "string \<Rightarrow> (real \<times> real) option list \<Rightarrow> RoomState \<Rightarrow> LocalState \<Rightarrow>
     HandlerResult option" where
  "dragSession i ps st loc =
     (case dragStart i st loc of
        None \<Rightarrow> None
      | Some r0 \<Rightarrow>
          (case dragMoves i ps r0 of
             None \<Rightarrow> None
           | Some r1 \<Rightarrow> dragRelease i r1))"

section \<open>Arranging books in a row (DetailEditMode)\<close>

definition getBooksOnFurniture :: "RoomState \<Rightarrow> FurnitureItem \<Rightarrow> FurnitureItem list" where
  "getBooksOnFurniture st target =
     filter (\<lambda>f.
        if \<not> isBookType (item_type f) then False
        else
          let dx = \<bar>posX (position f) - posX (position target)\<bar>;
              dz = \<bar>posZ (position f) - posZ (position target)\<bar>;
              maxRange = max (width (dimensions target)) (depth (dimensions target)) / 2 + 0.1
          in dx < maxRange \<and> dz < maxRange) (furniture st)"

text \<open>\<open>book.sizeVariant || 1\<close>: a missing or zero size variant counts as one.\<close>

definition spineWidth :: "FurnitureItem \<Rightarrow> real" where
  "spineWidth book =
     depth (dimensions book) *
       (case sizeVariant book of None \<Rightarrow> 1 | Some v \<Rightarrow> if v = 0 then 1 else v)"

fun arrangeRowLoop ::
  "FurnitureItem list \<Rightarrow> real \<Rightarrow> real \<Rightarrow> real \<Rightarrow> RoomState \<Rightarrow> RoomState" where
  "arrangeRowLoop [] currentX baseY centerZ st = st"
| "arrangeRowLoop (book # rest) currentX baseY centerZ st =
     (let bookWidth = spineWidth book;
          st1 = updateFurniturePosition (item_id book)
                  (currentX + bookWidth / 2, baseY, centerZ) st;
          st2 = updateFurnitureOrientation (item_id book) Upright st1
      in arrangeRowLoop rest (currentX + bookWidth + 0.005) baseY centerZ st2)"

definition arrangeRow :: "RoomState \<Rightarrow> RoomState" where
  "arrangeRow st =
     (case targetFurniture st of
        None \<Rightarrow> st
      | Some target \<Rightarrow>
          let books = getBooksOnFurniture st target
          in if length books < 1 then st
             else
               let st1 = saveForUndo st;
                   startX = posX (position target) - width (dimensions target) / 2 + 0.05;
                   baseY = posY (position target) + 0.02;
                   centerZ = posZ (position target)
               in arrangeRowLoop books startX baseY centerZ st1)"

text \<open>Where one item ends up when the row is laid out from \<open>x\<close> on.\<close>

fun placeRow :: "FurnitureItem list \<Rightarrow> real \<Rightarrow> real \<Rightarrow> real \<Rightarrow> FurnitureItem \<Rightarrow> FurnitureItem" where
  "placeRow [] x y z f = f"
| "placeRow (b # bs) x y z f =
     (if item_id f = item_id b
      then f\<lparr>position := (x + spineWidth b / 2, y, z), orientation := Some Upright\<rparr>
      else placeRow bs (x + spineWidth b + 0.005) y z f)"

section \<open>Importing a room document\<close>

text \<open>
  \<open>importRoom\<close> stores the fields of the parsed document as they are, without looking
  at them, so here the fields of the store hold JavaScript values: a JSON value or
  \<open>undefined\<close>. \<open>JSON.parse\<close> is the platform's; its outcome on the imported text is
  the argument of \<open>importRoom\<close>. A later key of an object wins over an earlier equal one.
  Reading a property of \<open>null\<close> throws; reading one of the four document fields from
  any other value that has none gives \<open>undefined\<close>.
\<close>

datatype json =
    JNull
  | JBool bool
  | JNumber real
  | JString string
  | JArray "json list"
  | JObject "(string \<times> json) list"

datatype jsvalue = Undefined | Value json

datatype parseResult = SyntaxError | Parsed json

record RawStore =
  raw_roomDimensions :: jsvalue
  raw_furniture :: jsvalue
  raw_scannedItems :: jsvalue
  raw_gridSize :: jsvalue
  raw_selectedId :: jsvalue
  raw_selectedType :: jsvalue

fun getProp :: "json \<Rightarrow> string \<Rightarrow> jsvalue option" where
  "getProp JNull k = None"
| "getProp (JObject kvs) k =
     Some (case map_of (rev kvs) k of None \<Rightarrow> Undefined | Some v \<Rightarrow> Value v)"
| "getProp other k = Some Undefined"

fun truthy :: "jsvalue \<Rightarrow> bool" where
  "truthy Undefined = False"
| "truthy (Value JNull) = False"
| "truthy (Value (JBool b)) = b"
| "truthy (Value (JNumber n)) = (n \<noteq> 0)"
| "truthy (Value (JString s)) = (s \<noteq> [])"
| "truthy (Value other) = True"

definition orElse :: "jsvalue \<Rightarrow> jsvalue \<Rightarrow> jsvalue" where
  "orElse a b = (if truthy a then a else b)"

definition importRoom :: "parseResult \<Rightarrow> RawStore \<Rightarrow> bool \<times> RawStore" where
  "importRoom parsed st =
     (case parsed of
        SyntaxError \<Rightarrow> (False, st)
      | Parsed data \<Rightarrow>
          (case (getProp data ''roomDimensions'', getProp data ''furniture'',
                 getProp data ''scannedItems'', getProp data ''gridSize'') of
             (Some rd, Some fs, Some sc, Some gs) \<Rightarrow>
               (True,
                st\<lparr>raw_roomDimensions := rd,
                   raw_furniture := fs,
                   raw_scannedItems := orElse sc (Value (JArray [])),
                   raw_gridSize := orElse gs (Value (JNumber 0.25)),
                   raw_selectedId := Value JNull,
                   raw_selectedType := Value JNull\<rparr>)
           | _ \<Rightarrow> (False, st)))"

section \<open>Example scenes\<close>

definition chair :: FurnitureItem where
  "chair =
     \<lparr> item_id = ''chair_1'', item_type = ''chair'', name = ''Chair'', position = (0, 0, 0),
       rotation = 0, dimensions = \<lparr> width = 0.5, height = 0.9, depth = 0.5 \<rparr>,
       color = ''#5a5a5a'', orientation = None, spineColor = None, sizeVariant = None \<rparr>"

definition chairScene :: RoomState where
  "chairScene = initialState\<lparr>furniture := [chair]\<rparr>"

definition twentyOneTurns :: "Action list" where
  "twentyOneTurns = map (\<lambda>k. UpdateFurnitureRotation ''chair_1'' (real k)) [1..<22]"

definition fullStackState :: RoomState where
  "fullStackState = initialState\<lparr>undoStack := replicate 20 [], canUndo := True\<rparr>"

definition book :: "string \<Rightarrow> position \<Rightarrow> FurnitureItem" where
  "book i p =
     \<lparr> item_id = i, item_type = ''book'', name = ''Book'', position = p,
       rotation = 0, dimensions = \<lparr> width = 0.15, height = 0.22, depth = 0.03 \<rparr>,
       color = ''#8B4513'', orientation = Some Upright, spineColor = Some ''#1a1a2e'',
       sizeVariant = Some 1 \<rparr>"

definition twoBooksScene :: RoomState where
  "twoBooksScene = initialState\<lparr>furniture := [book ''book_1'' (0, 0, 0), book ''book_2'' (0, 0, 0)]\<rparr>"

definition bed :: FurnitureItem where
  "bed =
     \<lparr> item_id = ''bed_1'', item_type = ''bed'', name = ''Queen Bed'', position = (0, 0, 0),
       rotation = 0, dimensions = \<lparr> width = 1.6, height = 0.5, depth = 2.0 \<rparr>,
       color = ''#c4b5a0'', orientation = None, spineColor = None, sizeVariant = None \<rparr>"

definition desk :: FurnitureItem where
  "desk =
     \<lparr> item_id = ''desk_1'', item_type = ''desk'', name = ''Desk'', position = (2, 0, 1.5),
       rotation = 0, dimensions = \<lparr> width = 1.2, height = 0.75, depth = 0.6 \<rparr>,
       color = ''#d4c4b0'', orientation = None, spineColor = None, sizeVariant = None \<rparr>"

definition bedDeskScene :: RoomState where
  "bedDeskScene = initialState\<lparr>furniture := [bed, desk]\<rparr>"

definition bookshelf :: FurnitureItem where
  "bookshelf =
     \<lparr> item_id = ''shelf_1'', item_type = ''bookshelf'', name = ''Bookshelf'',
       position = (0, 0, 0), rotation = 0,
       dimensions = \<lparr> width = 0.8, height = 1.2, depth = 0.3 \<rparr>,
       color = ''#8b5a2b'', orientation = None, spineColor = None, sizeVariant = None \<rparr>"

definition shelfScene :: "FurnitureItem list \<Rightarrow> RoomState" where
  "shelfScene books =
     initialState\<lparr>furniture := bookshelf # books, detailModeTarget := Some ''shelf_1''\<rparr>"

definition narrowRoom :: RoomState where
  "narrowRoom =
     initialState\<lparr>roomDimensions := \<lparr> room_width = 1, room_length = 4, room_height = 2.8 \<rparr>,
                  furniture := [bed]\<rparr>"

definition notDragging :: LocalState where
  "notDragging = \<lparr> localDragging = False, hasCollision = False \<rparr>"

definition midDrag :: LocalState where
  "midDrag = \<lparr> localDragging = True, hasCollision = False \<rparr>"

definition turnedBook :: FurnitureItem where
  "turnedBook = (book ''book_1'' (0, 0.02, 0))\<lparr>rotation := 90\<rparr>"

definition thickBook :: FurnitureItem where
  "thickBook = (book ''book_2'' (-0.2, 0.3, 0.05))\<lparr>sizeVariant := Some 1.1, orientation := Some Flat\<rparr>"

definition rowScene :: RoomState where
  "rowScene = shelfScene [book ''book_1'' (0.1, 0.5, 0), thickBook]"

definition oneBookScene :: RoomState where
  "oneBookScene = shelfScene [book ''book_1'' (0.1, 0.5, 0)]"

section \<open>Properties of the undo stack\<close>

lemma applyAction_undoStack [simp]: "undoStack (applyAction a st) = undoStack st"
  by (cases a)
     (simp_all add: addFurniture_def removeFurniture_def updateFurniturePosition_def
        updateFurnitureRotation_def updateFurnitureDimensions_def updateFurnitureColor_def
        updateFurnitureOrientation_def updateFurnitureSpineColor_def
        updateScannedItemPosition_def clearRoom_def Let_def)

lemma applyAction_canUndo [simp]: "canUndo (applyAction a st) = canUndo st"
  by (cases a)
     (simp_all add: addFurniture_def removeFurniture_def updateFurniturePosition_def
        updateFurnitureRotation_def updateFurnitureDimensions_def updateFurnitureColor_def
        updateFurnitureOrientation_def updateFurnitureSpineColor_def
        updateScannedItemPosition_def clearRoom_def Let_def)

lemma length_sliceLast: "length (sliceLast n xs) = min n (length xs)"
  by (simp add: sliceLast_def)

lemma saveForUndo_length: "length (undoStack (saveForUndo st)) = min 20 (Suc (length (undoStack st)))"
  by (simp add: saveForUndo_def Let_def length_sliceLast)

lemma undo_length: "length (undoStack (undo st)) \<le> length (undoStack st)"
  by (simp add: undo_def Let_def)

lemma execOp_bound:
  "length (undoStack st) \<le> 20 \<Longrightarrow> length (undoStack (execOp op st)) \<le> 20"
proof (cases op)
  case SaveForUndo
  then show ?thesis by (simp add: saveForUndo_length)
next
  case Undo
  assume "length (undoStack st) \<le> 20"
  with undo_length [of st] Undo show ?thesis by simp
next
  case (Mutate a)
  assume "length (undoStack st) \<le> 20"
  with Mutate show ?thesis by simp
qed

lemma execOps_bound:
  "length (undoStack st) \<le> 20 \<Longrightarrow> length (undoStack (execOps ops st)) \<le> 20"
  by (induction ops arbitrary: st) (simp_all add: execOp_bound)

lemma saveForUndo_full:
  "length (undoStack st) = 20 \<Longrightarrow>
   undoStack (saveForUndo st) = tl (undoStack st) @ [furniture st]"
  by (cases "undoStack st") (simp_all add: saveForUndo_def sliceLast_def deepClone_def Let_def)

text \<open>
  C6. Starting from the initial store, after any sequence of snapshots, undos and
  mutating actions the undo stack holds at most 20 entries; and a snapshot pushed on a
  stack of 20 entries drops the oldest entry and keeps the 19 newer ones followed by the
  new snapshot.
\<close>

theorem undo_stack_bounded:
  "length (undoStack (execOps ops initialState)) \<le> 20 \<and>
   (length (undoStack st) = 20 \<longrightarrow>
      undoStack (saveForUndo st) = tl (undoStack st) @ [furniture st] \<and>
      length (undoStack (saveForUndo st)) = 20)"
proof -
  have "length (undoStack initialState) \<le> 20"
    by (simp add: initialState_def)
  then have "length (undoStack (execOps ops initialState)) \<le> 20"
    by (rule execOps_bound)
  then show ?thesis
    by (simp add: saveForUndo_full saveForUndo_length)
qed

theorem undo_stack_bounded_witness:
  "length (undoStack fullStackState) = 20 \<and>
   length (undoStack (execOps [SaveForUndo, Mutate (RemoveFurniture ''chair_1''), Undo, Undo] initialState)) \<le> 20 \<and>
   undoStack (saveForUndo fullStackState) = tl (undoStack fullStackState) @ [furniture fullStackState] \<and>
   length (undoStack (saveForUndo fullStackState)) = 20"
  using undo_stack_bounded [of "[SaveForUndo, Mutate (RemoveFurniture ''chair_1''), Undo, Undo]" fullStackState]
  by (simp add: fullStackState_def initialState_def)

subsection \<open>Undoing a run of actions\<close>

lemma undo_cong: "undoView s = undoView t \<Longrightarrow> undoView (undo s) = undoView (undo t)"
  by (simp add: undoView_def undo_def Let_def)

lemma undo_after_save:
  "length (undoStack st) < 20 \<Longrightarrow> canUndo st = (undoStack st \<noteq> []) \<Longrightarrow>
   undoView (undo (applyAction a (saveForUndo st))) = undoView st"
  by (simp add: undoView_def undo_def saveForUndo_def sliceLast_def deepClone_def Let_def)

lemma funpow_undo_cong:
  "undoView s = undoView t \<Longrightarrow> undoView ((undo ^^ n) s) = undoView ((undo ^^ n) t)"
proof (induction n)
  case 0
  then show ?case by simp
next
  case (Suc n)
  then have "undoView (undo ((undo ^^ n) s)) = undoView (undo ((undo ^^ n) t))"
    by (intro undo_cong) simp
  then show ?case by simp
qed

lemma snapshotAndApply_undo:
  "length (undoStack st) + length as \<le> 20 \<Longrightarrow> canUndo st = (undoStack st \<noteq> []) \<Longrightarrow>
   undoView ((undo ^^ length as) (snapshotAndApply as st)) = undoView st"
proof (induction as arbitrary: st)
  case Nil
  then show ?case by simp
next
  case (Cons a as)
  let ?s1 = "applyAction a (saveForUndo st)"
  have len: "length (undoStack ?s1) = Suc (length (undoStack st))"
    using Cons.prems(1) by (simp add: saveForUndo_length)
  have cu: "canUndo ?s1 = (undoStack ?s1 \<noteq> [])"
    using len by (auto simp add: saveForUndo_def Let_def)
  have "undoView ((undo ^^ length as) (snapshotAndApply as ?s1)) = undoView ?s1"
    using Cons.IH [of ?s1] Cons.prems(1) len cu by simp
  then have "undoView (undo ((undo ^^ length as) (snapshotAndApply as ?s1))) = undoView (undo ?s1)"
    by (rule undo_cong)
  also have "\<dots> = undoView st"
    using Cons.prems by (simp add: undo_after_save)
  finally show ?case by simp
qed

text \<open>
  C7, as the claim states it, fails once more than 20 snapshots are taken: the stack keeps
  the last 20, so after 21 rotations of a chair, each preceded by its snapshot, 21 undos
  bring back the chair as it was after the first rotation, not the initial one.
\<close>

theorem undo_restores_counterexample:
  "length twentyOneTurns = 21 \<and> undoStack chairScene = [] \<and> \<not> canUndo chairScene \<and>
   furniture ((undo ^^ 21) (snapshotAndApply twentyOneTurns chairScene)) \<noteq> furniture chairScene"
proof -
  have "furniture ((undo ^^ 21) (snapshotAndApply twentyOneTurns chairScene))
          = [chair\<lparr>rotation := 1\<rparr>]"
    by (simp add: twentyOneTurns_def upt_rec numeral_eq_Suc chairScene_def initialState_def
          chair_def saveForUndo_def undo_def sliceLast_def deepClone_def
          updateFurnitureRotation_def Let_def)
  then show ?thesis
    by (simp add: twentyOneTurns_def chairScene_def initialState_def chair_def)
qed

text \<open>
  C7, amended. For at most 20 mutating actions, each preceded by its snapshot, on a store
  whose undo stack is empty: undoing as many times as there were actions restores the
  furniture collection to its value before the first action and empties the stack;
  \<open>canUndo\<close> is then false and one more undo changes nothing.
\<close>

theorem undo_restores_within_capacity:
  assumes "length as \<le> 20" and "undoStack st = []" and "\<not> canUndo st"
  shows "furniture ((undo ^^ length as) (snapshotAndApply as st)) = furniture st \<and>
         undoStack ((undo ^^ length as) (snapshotAndApply as st)) = [] \<and>
         \<not> canUndo ((undo ^^ length as) (snapshotAndApply as st)) \<and>
         undo ((undo ^^ length as) (snapshotAndApply as st))
           = (undo ^^ length as) (snapshotAndApply as st)"
proof -
  let ?st' = "(undo ^^ length as) (snapshotAndApply as st)"
  have "undoView ?st' = undoView st"
    using assms by (simp add: snapshotAndApply_undo)
  then have v: "furniture ?st' = furniture st" "undoStack ?st' = []" "\<not> canUndo ?st'"
    using assms by (simp_all add: undoView_def)
  from v(2) have "undo ?st' = ?st'"
    by (simp add: undo_def)
  with v show ?thesis by simp
qed

theorem undo_restores_within_capacity_witness:
  "length [UpdateFurnitureRotation ''chair_1'' 90, RemoveFurniture ''chair_1''] \<le> 20 \<and>
   undoStack chairScene = [] \<and> \<not> canUndo chairScene \<and>
   furniture ((undo ^^ 2)
     (snapshotAndApply [UpdateFurnitureRotation ''chair_1'' 90, RemoveFurniture ''chair_1'']
        chairScene)) = [chair]"
  using undo_restores_within_capacity
    [of "[UpdateFurnitureRotation ''chair_1'' 90, RemoveFurniture ''chair_1'']" chairScene]
  by (simp add: chairScene_def initialState_def numeral_2_eq_2)

subsection \<open>What undo leaves alone\<close>

text \<open>
  C10. \<open>undo\<close> changes only the furniture, the undo stack and \<open>canUndo\<close>: the room
  dimensions, the grid settings, the selection, the drag flag, the detail-mode target and
  the placed scanned models stay as they are. A scanned model moved after a snapshot stays
  where it was moved to when the snapshot is undone.
\<close>

theorem undo_frame:
  "roomDimensions (undo st) = roomDimensions st \<and>
   gridSize (undo st) = gridSize st \<and>
   showGrid (undo st) = showGrid st \<and>
   selectedId (undo st) = selectedId st \<and>
   selectedType (undo st) = selectedType st \<and>
   isDragging (undo st) = isDragging st \<and>
   detailModeTarget (undo st) = detailModeTarget st \<and>
   scannedItems (undo st) = scannedItems st \<and>
   scannedItems (undo (updateScannedItemPosition i p (saveForUndo st)))
     = scannedItems (updateScannedItemPosition i p st)"
  by (simp add: undo_def saveForUndo_def updateScannedItemPosition_def Let_def)

section \<open>Properties of the collision check\<close>

lemma collisionLoop_iff:
  "collisionLoop st item b fs \<longleftrightarrow>
     (\<exists>other\<in>set fs. eligible st item other \<and> boxesOverlap b (otherBox other))"
  by (induction fs) (auto simp add: eligible_def)

lemma myBox_effectiveBox: "myBox item x y z = effectiveBox item (x, y, z)"
  by (simp add: myBox_def effectiveBox_def effWidth_def effDepth_def shrinkFactor_def yaw_def
        posX_def posY_def posZ_def Let_def)

lemma otherBox_effectiveBox: "otherBox other = effectiveBox other (position other)"
  by (simp add: otherBox_def effectiveBox_def effWidth_def effDepth_def shrinkFactor_def yaw_def
        Let_def)

text \<open>
  C5, as the claim states it, fails for two small items: the claim excludes only the
  candidate itself and the detail-mode host, and two books at the same place are neither,
  have boxes that overlap on all three axes, and are not reported.
\<close>

theorem checkCollision_iff_overlap_counterexample:
  "\<not> checkCollision twoBooksScene (book ''book_1'' (0, 0, 0)) 0 0 0 \<and>
   book ''book_2'' (0, 0, 0) \<in> set (furniture twoBooksScene) \<and>
   item_id (book ''book_2'' (0, 0, 0)) \<noteq> item_id (book ''book_1'' (0, 0, 0)) \<and>
   detailModeTarget twoBooksScene = None \<and>
   minX (myBox (book ''book_1'' (0, 0, 0)) 0 0 0) < maxX (otherBox (book ''book_2'' (0, 0, 0))) \<and>
   maxX (myBox (book ''book_1'' (0, 0, 0)) 0 0 0) > minX (otherBox (book ''book_2'' (0, 0, 0))) \<and>
   minY (myBox (book ''book_1'' (0, 0, 0)) 0 0 0) < maxY (otherBox (book ''book_2'' (0, 0, 0))) \<and>
   maxY (myBox (book ''book_1'' (0, 0, 0)) 0 0 0) > minY (otherBox (book ''book_2'' (0, 0, 0))) \<and>
   minZ (myBox (book ''book_1'' (0, 0, 0)) 0 0 0) < maxZ (otherBox (book ''book_2'' (0, 0, 0))) \<and>
   maxZ (myBox (book ''book_1'' (0, 0, 0)) 0 0 0) > minZ (otherBox (book ''book_2'' (0, 0, 0)))"
  by (simp add: checkCollision_def twoBooksScene_def initialState_def book_def
        myBox_def otherBox_def isSmallItem_def smallTypes_def
        posX_def posY_def posZ_def Let_def)

text \<open>
  C5, amended. The box of the candidate at \<open>(x, y, z)\<close> and the box of every other item at
  its position have, in exact arithmetic, the horizontal extents
  \<open>width\<cdot>|cos r| + depth\<cdot>|sin r|\<close> and \<open>width\<cdot>|sin r| + depth\<cdot>|cos r|\<close> for the yaw \<open>r\<close>,
  each times 0.5 for a small item and 0.95 for a large one, centred on the position, and
  the height times the same factor above the position's \<open>y\<close>. A collision is reported
  exactly when, for some other item that is not the candidate (by id), not the detail-mode
  host, and not a small item while the candidate is small, the two computed boxes overlap
  strictly on each of the three axes.
\<close>

theorem checkCollision_iff_overlap:
  "(checkCollision st item x y z \<longleftrightarrow>
      (\<exists>other\<in>set (furniture st).
         item_id other \<noteq> item_id item \<and>
         detailModeTarget st \<noteq> Some (item_id other) \<and>
         \<not> (isSmallItem (item_type item) \<and> isSmallItem (item_type other)) \<and>
         minX (myBox item x y z) < maxX (otherBox other) \<and>
         maxX (myBox item x y z) > minX (otherBox other) \<and>
         minY (myBox item x y z) < maxY (otherBox other) \<and>
         maxY (myBox item x y z) > minY (otherBox other) \<and>
         minZ (myBox item x y z) < maxZ (otherBox other) \<and>
         maxZ (myBox item x y z) > minZ (otherBox other))) \<and>
   myBox item x y z =
     \<lparr> minX = x - effWidth item / 2, maxX = x + effWidth item / 2,
       minY = y, maxY = y + height (dimensions item) * shrinkFactor item,
       minZ = z - effDepth item / 2, maxZ = z + effDepth item / 2 \<rparr> \<and>
   otherBox it =
     \<lparr> minX = posX (position it) - effWidth it / 2, maxX = posX (position it) + effWidth it / 2,
       minY = posY (position it),
       maxY = posY (position it) + height (dimensions it) * shrinkFactor it,
       minZ = posZ (position it) - effDepth it / 2,
       maxZ = posZ (position it) + effDepth it / 2 \<rparr> \<and>
   effWidth it =
     (width (dimensions it) * \<bar>cos (rotation it * pi / 180)\<bar>
        + depth (dimensions it) * \<bar>sin (rotation it * pi / 180)\<bar>)
       * (if isSmallItem (item_type it) then 0.5 else 0.95) \<and>
   effDepth it =
     (width (dimensions it) * \<bar>sin (rotation it * pi / 180)\<bar>
        + depth (dimensions it) * \<bar>cos (rotation it * pi / 180)\<bar>)
       * (if isSmallItem (item_type it) then 0.5 else 0.95) \<and>
   shrinkFactor it = (if isSmallItem (item_type it) then 0.5 else 0.95)"
proof -
  have "checkCollision st item x y z \<longleftrightarrow>
      (\<exists>other\<in>set (furniture st).
         eligible st item other \<and> boxesOverlap (myBox item x y z) (otherBox other))"
    by (simp add: checkCollision_def collisionLoop_iff)
  moreover have "myBox item x y z = effectiveBox item (x, y, z)"
    by (rule myBox_effectiveBox)
  moreover have "otherBox it = effectiveBox it (position it)"
    by (rule otherBox_effectiveBox)
  ultimately show ?thesis
    by (simp add: eligible_def boxesOverlap_def effectiveBox_def effWidth_def effDepth_def
          shrinkFactor_def yaw_def posX_def posY_def posZ_def)
qed

text \<open>The scenario of the design: a desk dropped on the bed at the origin collides.\<close>

lemma bed_desk_collide: "checkCollision bedDeskScene desk 0 0 0"
  by (simp add: checkCollision_def bedDeskScene_def bed_def desk_def initialState_def
        myBox_def otherBox_def boxesOverlap_def isSmallItem_def smallTypes_def
        posX_def posY_def posZ_def Let_def)

lemma collisionLoop_skip_small:
  "isSmallItem (item_type item) \<Longrightarrow> isSmallItem (item_type other) \<Longrightarrow>
   collisionLoop st item b (pre @ other # post) = collisionLoop st item b (pre @ post)"
  by (induction pre) simp_all

text \<open>
  C1. A pair of two small items is skipped whatever their boxes are: taking a small item
  out of the furniture does not change the verdict for a small candidate, a small candidate
  among small items only never collides, and every collision verdict comes from a pair
  with at least one large item whose boxes overlap.
\<close>

theorem small_pairs_never_collide:
  "(isSmallItem (item_type item) \<and> isSmallItem (item_type other) \<longrightarrow>
      checkCollision (st\<lparr>furniture := pre @ other # post\<rparr>) item x y z
        = checkCollision (st\<lparr>furniture := pre @ post\<rparr>) item x y z) \<and>
   (isSmallItem (item_type item) \<and> (\<forall>other\<in>set (furniture st). isSmallItem (item_type other))
      \<longrightarrow> \<not> checkCollision st item x y z) \<and>
   (checkCollision st item x y z \<longrightarrow>
      (\<exists>other\<in>set (furniture st).
         (\<not> isSmallItem (item_type item) \<or> \<not> isSmallItem (item_type other)) \<and>
         item_id other \<noteq> item_id item \<and>
         boxesOverlap (myBox item x y z) (otherBox other)))"
proof (intro conjI impI)
  assume "isSmallItem (item_type item) \<and> isSmallItem (item_type other)"
  then have "collisionLoop st' item b (pre @ other # post) = collisionLoop st' item b (pre @ post)"
    for st' b
    by (simp add: collisionLoop_skip_small)
  moreover have "collisionLoop (st\<lparr>furniture := fs\<rparr>) item b gs = collisionLoop st item b gs"
    for fs b gs
    by (induction gs) simp_all
  ultimately show "checkCollision (st\<lparr>furniture := pre @ other # post\<rparr>) item x y z
        = checkCollision (st\<lparr>furniture := pre @ post\<rparr>) item x y z"
    by (simp add: checkCollision_def)
next
  assume "isSmallItem (item_type item) \<and>
          (\<forall>other\<in>set (furniture st). isSmallItem (item_type other))"
  then show "\<not> checkCollision st item x y z"
    by (auto simp add: checkCollision_def collisionLoop_iff eligible_def)
next
  assume "checkCollision st item x y z"
  then obtain other where "other \<in> set (furniture st)" "eligible st item other"
      "boxesOverlap (myBox item x y z) (otherBox other)"
    by (auto simp add: checkCollision_def collisionLoop_iff)
  then show "\<exists>other\<in>set (furniture st).
         (\<not> isSmallItem (item_type item) \<or> \<not> isSmallItem (item_type other)) \<and>
         item_id other \<noteq> item_id item \<and>
         boxesOverlap (myBox item x y z) (otherBox other)"
    by (auto simp add: eligible_def)
qed

lemma two_books_overlap:
  "boxesOverlap (myBox (book ''book_1'' (0, 0, 0)) 0 0 0) (otherBox (book ''book_2'' (0, 0, 0)))"
  by (simp add: book_def myBox_def otherBox_def boxesOverlap_def isSmallItem_def smallTypes_def
        posX_def posY_def posZ_def Let_def)

theorem small_pairs_never_collide_witness:
  "isSmallItem (item_type (book ''book_1'' (0, 0, 0))) \<and>
   isSmallItem (item_type (book ''book_2'' (0, 0, 0))) \<and>
   boxesOverlap (myBox (book ''book_1'' (0, 0, 0)) 0 0 0) (otherBox (book ''book_2'' (0, 0, 0))) \<and>
   \<not> checkCollision twoBooksScene (book ''book_1'' (0, 0, 0)) 0 0 0 \<and>
   checkCollision (bedDeskScene\<lparr>furniture := [] @ book ''book_2'' (0, 0, 0) # [bed, desk]\<rparr>)
     (book ''book_1'' (0, 0, 0)) 0 0 0 \<and>
   \<not> isSmallItem (item_type bed)"
  using small_pairs_never_collide
      [where item = "book ''book_1'' (0, 0, 0)" and other = "book ''book_2'' (0, 0, 0)"
         and st = twoBooksScene and pre = "[]" and post = "[bed, desk]"
         and x = 0 and y = 0 and z = 0]
    small_pairs_never_collide
      [where item = "book ''book_1'' (0, 0, 0)" and other = "book ''book_2'' (0, 0, 0)"
         and st = bedDeskScene and pre = "[]" and post = "[bed, desk]"
         and x = 0 and y = 0 and z = 0]
    two_books_overlap
  by (simp add: twoBooksScene_def bedDeskScene_def initialState_def book_def bed_def desk_def
        isSmallItem_def smallTypes_def checkCollision_def myBox_def otherBox_def boxesOverlap_def
        posX_def posY_def posZ_def Let_def)

section \<open>Properties of grid snapping\<close>

text \<open>
  Rounding to a double moves a number by at most half a unit of its last place, and a
  number that has 53 significant bits after scaling by a power of two is rounded as
  \<^const>\<open>roundHalfEven\<close> rounds the scaled number.
\<close>

lemma roundHalfEven_error: "\<bar>of_int (roundHalfEven y) - y\<bar> \<le> 1 / 2"
  unfolding roundHalfEven_def Let_def by (auto; linarith)

lemma roundHalfEven_of_int [simp]: "roundHalfEven (of_int k) = k"
  by (simp add: roundHalfEven_def)

lemma floor_log2_bounds:
  assumes "x \<noteq> 0"
  shows "2 powr (of_int \<lfloor>log 2 \<bar>x\<bar>\<rfloor>) \<le> \<bar>x\<bar>"
    and "\<bar>x\<bar> < 2 powr (of_int (\<lfloor>log 2 \<bar>x\<bar>\<rfloor> + 1))"
proof -
  have pos: "0 < \<bar>x\<bar>" using assms by simp
  have "of_int \<lfloor>log 2 \<bar>x\<bar>\<rfloor> \<le> log 2 \<bar>x\<bar>" by simp
  then have "2 powr (of_int \<lfloor>log 2 \<bar>x\<bar>\<rfloor>) \<le> 2 powr (log 2 \<bar>x\<bar>)"
    by (simp only: powr_le_cancel_iff) 
  then show "2 powr (of_int \<lfloor>log 2 \<bar>x\<bar>\<rfloor>) \<le> \<bar>x\<bar>"
    using pos by simp
  have "log 2 \<bar>x\<bar> < of_int (\<lfloor>log 2 \<bar>x\<bar>\<rfloor> + 1)" by linarith
  then have "2 powr (log 2 \<bar>x\<bar>) < 2 powr (of_int (\<lfloor>log 2 \<bar>x\<bar>\<rfloor> + 1))"
    by (simp only: powr_less_cancel_iff)
  then show "\<bar>x\<bar> < 2 powr (of_int (\<lfloor>log 2 \<bar>x\<bar>\<rfloor> + 1))"
    using pos by simp
qed

lemma floor_log2_unique:
  assumes "2 powr (of_int e) \<le> \<bar>x\<bar>" and "\<bar>x\<bar> < 2 powr (of_int (e + 1))"
  shows "\<lfloor>log 2 \<bar>x\<bar>\<rfloor> = e"
proof -
  have pos: "0 < \<bar>x\<bar>"
    using assms(1) powr_gt_zero [of 2 "of_int e"] by linarith
  have "log 2 (2 powr (of_int e)) \<le> log 2 \<bar>x\<bar>"
    using assms(1) pos by (subst log_le_cancel_iff) simp_all
  then have 1: "of_int e \<le> log 2 \<bar>x\<bar>" by simp
  have "log 2 \<bar>x\<bar> < log 2 (2 powr (of_int (e + 1)))"
    using assms(2) pos by (subst log_less_cancel_iff) simp_all
  then have 2: "log 2 \<bar>x\<bar> < of_int (e + 1)" by simp
  from 1 2 show ?thesis by linarith
qed

lemma ulp_scaled_error:
  assumes "0 < p"
  shows "\<bar>of_int (roundHalfEven (x / p)) * p - x\<bar> \<le> p / 2"
proof -
  have "of_int (roundHalfEven (x / p)) * p - x = (of_int (roundHalfEven (x / p)) - x / p) * p"
    using assms by (simp add: algebra_simps)
  then have "\<bar>of_int (roundHalfEven (x / p)) * p - x\<bar>
               = \<bar>of_int (roundHalfEven (x / p)) - x / p\<bar> * p"
    using assms by (simp add: abs_mult)
  also have "\<dots> \<le> (1 / 2) * p"
    using roundHalfEven_error [of "x / p"] assms by (intro mult_right_mono) simp_all
  finally show ?thesis by simp
qed

lemma ulp_power_le:
  assumes "x \<noteq> 0"
  shows "(2::real) powr (of_int (ulpExponent x)) \<le> \<bar>x\<bar> / 2 ^ 52 + 1 / 2 ^ 1074"
proof (cases "- 1074 \<le> \<lfloor>log 2 \<bar>x\<bar>\<rfloor> - 52")
  case True
  then have "ulpExponent x = \<lfloor>log 2 \<bar>x\<bar>\<rfloor> - 52"
    unfolding ulpExponent_def by linarith
  then have "(2::real) powr (of_int (ulpExponent x))
               = 2 powr (of_int \<lfloor>log 2 \<bar>x\<bar>\<rfloor>) / 2 ^ 52"
    by (simp add: powr_diff)
  also have "\<dots> \<le> \<bar>x\<bar> / 2 ^ 52"
    using floor_log2_bounds(1) [OF assms] by (simp add: divide_right_mono)
  finally show ?thesis by (simp add: add_increasing2)
next
  case False
  then have "ulpExponent x = - 1074"
    unfolding ulpExponent_def by linarith
  then have "(2::real) powr (of_int (ulpExponent x)) = 1 / 2 ^ 1074"
    by (simp add: powr_minus_divide)
  then show ?thesis by simp
qed

lemma ulp_power_normal:
  assumes "1 / 2 ^ 1022 \<le> \<bar>x\<bar>"
  shows "(2::real) powr (of_int (ulpExponent x)) \<le> \<bar>x\<bar> / 2 ^ 52"
proof -
  have nz: "x \<noteq> 0" using assms by auto
  have "(2::real) powr (of_int (- 1022)) \<le> \<bar>x\<bar>"
    using assms by (simp add: powr_minus_divide)
  then have "log 2 ((2::real) powr (of_int (- 1022))) \<le> log 2 \<bar>x\<bar>"
    using nz by (subst log_le_cancel_iff) simp_all
  then have "of_int (- 1022) \<le> log 2 \<bar>x\<bar>" by simp
  then have "(- 1022 :: int) \<le> \<lfloor>log 2 \<bar>x\<bar>\<rfloor>" by (simp only: le_floor_iff)
  then have "ulpExponent x = \<lfloor>log 2 \<bar>x\<bar>\<rfloor> - 52"
    unfolding ulpExponent_def by linarith
  then have "(2::real) powr (of_int (ulpExponent x))
               = 2 powr (of_int \<lfloor>log 2 \<bar>x\<bar>\<rfloor>) / 2 ^ 52"
    by (simp add: powr_diff)
  also have "\<dots> \<le> \<bar>x\<bar> / 2 ^ 52"
    using floor_log2_bounds(1) [OF nz] by (simp add: divide_right_mono)
  finally show ?thesis .
qed

lemma fl_error:
  assumes "\<bar>x\<bar> \<le> 2 ^ 1000"
  shows "\<exists>r. fl x = Some r \<and> \<bar>r - x\<bar> \<le> \<bar>x\<bar> / 2 ^ 53 + 1 / 2 ^ 1075"
proof (cases "x = 0")
  case True
  then show ?thesis by (simp add: fl_def)
next
  case False
  define p :: real where "p = 2 powr (of_int (ulpExponent x))"
  define r where "r = of_int (roundHalfEven (x / p)) * p"
  have p: "0 < p" by (simp add: p_def)
  have "p \<le> \<bar>x\<bar> / 2 ^ 52 + 1 / 2 ^ 1074"
    unfolding p_def by (rule ulp_power_le [OF False])
  then have half: "p / 2 \<le> \<bar>x\<bar> / 2 ^ 53 + 1 / 2 ^ 1075" by simp
  have err: "\<bar>r - x\<bar> \<le> p / 2"
    unfolding r_def by (rule ulp_scaled_error [OF p])
  with half have e2: "\<bar>r - x\<bar> \<le> \<bar>x\<bar> / 2 ^ 53 + 1 / 2 ^ 1075" by linarith
  have "\<bar>x\<bar> / 2 ^ 53 \<le> 2 ^ 1000 / 2 ^ 53"
    using assms by (intro divide_right_mono) simp_all
  then have "\<bar>r\<bar> \<le> 2 ^ 1000 + 2 ^ 1000 / 2 ^ 53 + 1 / 2 ^ 1075"
    using e2 assms by linarith
  also have "\<dots> < (2 :: real) ^ 1024" by simp
  finally have "\<not> 2 ^ 1024 \<le> \<bar>r\<bar>" by simp
  then have "fl x = Some r"
    using False by (simp add: fl_def Let_def p_def r_def)
  with e2 show ?thesis by simp
qed

lemma fl_error_normal:
  assumes "1 / 2 ^ 1022 \<le> \<bar>x\<bar>" and "\<bar>x\<bar> \<le> 2 ^ 1000"
  shows "\<exists>r. fl x = Some r \<and> \<bar>r - x\<bar> \<le> \<bar>x\<bar> / 2 ^ 53"
proof -
  have nz: "x \<noteq> 0" using assms(1) by auto
  define p :: real where "p = 2 powr (of_int (ulpExponent x))"
  define r where "r = of_int (roundHalfEven (x / p)) * p"
  have p: "0 < p" by (simp add: p_def)
  have "p \<le> \<bar>x\<bar> / 2 ^ 52"
    unfolding p_def by (rule ulp_power_normal [OF assms(1)])
  then have half: "p / 2 \<le> \<bar>x\<bar> / 2 ^ 53" by simp
  have err: "\<bar>r - x\<bar> \<le> p / 2"
    unfolding r_def by (rule ulp_scaled_error [OF p])
  with half have e2: "\<bar>r - x\<bar> \<le> \<bar>x\<bar> / 2 ^ 53" by linarith
  have "\<bar>x\<bar> / 2 ^ 53 \<le> 2 ^ 1000 / 2 ^ 53"
    using assms(2) by (intro divide_right_mono) simp_all
  then have "\<bar>r\<bar> \<le> 2 ^ 1000 + 2 ^ 1000 / 2 ^ 53"
    using e2 assms(2) by linarith
  also have "\<dots> < (2 :: real) ^ 1024" by simp
  finally have "\<not> 2 ^ 1024 \<le> \<bar>r\<bar>" by simp
  then have "fl x = Some r"
    using nz by (simp add: fl_def Let_def p_def r_def)
  with e2 show ?thesis by simp
qed

lemma fl_eval_down:
  assumes n: "n \<le> 1074" and lo: "2 ^ 52 \<le> \<bar>x\<bar> * 2 ^ n" and hi: "\<bar>x\<bar> * 2 ^ n < 2 ^ 53"
  shows "fl x = Some (of_int (roundHalfEven (x * 2 ^ n)) / 2 ^ n)"
proof -
  have nz: "x \<noteq> 0" using lo by auto
  have pw: "(2::real) powr (of_int (- int n)) = 1 / 2 ^ n"
    by (simp add: powr_minus_divide powr_realpow)
  have pw52: "(2::real) powr (of_int (52 - int n)) = 2 ^ 52 / 2 ^ n"
    by (simp add: powr_diff powr_realpow)
  have pw53: "(2::real) powr (of_int (52 - int n + 1)) = 2 ^ 53 / 2 ^ n"
    by (simp add: powr_diff powr_add powr_realpow)
  have "2 ^ 52 / 2 ^ n \<le> \<bar>x\<bar>"
    using lo by (simp add: divide_le_eq)
  moreover have "\<bar>x\<bar> < 2 ^ 53 / 2 ^ n"
    using hi by (simp add: less_divide_eq)
  ultimately have "\<lfloor>log 2 \<bar>x\<bar>\<rfloor> = 52 - int n"
    using pw52 pw53 by (intro floor_log2_unique) simp_all
  then have e: "ulpExponent x = - int n"
    using n unfolding ulpExponent_def by linarith
  define r where "r = real_of_int (roundHalfEven (x * 2 ^ n)) / 2 ^ n"
  have "\<bar>real_of_int (roundHalfEven (x * 2 ^ n)) - x * 2 ^ n\<bar> \<le> 1 / 2"
    by (rule roundHalfEven_error)
  moreover have "\<bar>x * 2 ^ n\<bar> < 2 ^ 53"
    using hi by (simp add: abs_mult)
  ultimately have "\<bar>real_of_int (roundHalfEven (x * 2 ^ n))\<bar> \<le> 2 ^ 53 + 1"
    by linarith
  then have a: "\<bar>real_of_int (roundHalfEven (x * 2 ^ n))\<bar> \<le> 2 ^ 53 + 1" .
  have "\<bar>r\<bar> = \<bar>real_of_int (roundHalfEven (x * 2 ^ n))\<bar> / 2 ^ n"
    by (simp add: r_def)
  also have "\<dots> \<le> \<bar>real_of_int (roundHalfEven (x * 2 ^ n))\<bar> / 1"
    by (intro divide_left_mono) simp_all
  also have "\<dots> \<le> 2 ^ 53 + 1"
    using a by simp
  also have "\<dots> < (2::real) ^ 1024" by simp
  finally have "\<not> 2 ^ 1024 \<le> \<bar>r\<bar>" by simp
  then show ?thesis
    using nz e pw by (simp add: fl_def Let_def r_def)
qed

text \<open>
  Snapping twice. When the quotient \<open>v / cell\<close> is below \<open>2 ^ 49\<close> in size, the two
  roundings of the first snap move the quotient of the second snap by less than a half
  away from the integer the first snap chose, so the second snap chooses it again.
\<close>

lemma snap_twice:
  fixes g v :: real
  assumes g1: "1 / 2 ^ 1022 \<le> \<bar>g\<bar>" and g2: "\<bar>g\<bar> \<le> 2 ^ 900" and v: "\<bar>v\<bar> \<le> 2 ^ 49 * \<bar>g\<bar>"
  shows "\<exists>q w q'. fl (v / g) = Some q \<and> fl (of_int (round q) * g) = Some w \<and>
           fl (w / g) = Some q' \<and> round q' = round q"
proof -
  have gpos: "0 < \<bar>g\<bar>"
    using g1 by (smt (verit) divide_pos_pos zero_less_numeral zero_less_power)
  then have gnz: "g \<noteq> 0" by auto
  have x0: "\<bar>v / g\<bar> \<le> 2 ^ 49"
    using v gpos by (simp add: divide_le_eq)
  then have "\<bar>v / g\<bar> \<le> 2 ^ 1000" by simp
  from fl_error [OF this] obtain q where
    q: "fl (v / g) = Some q" and qe: "\<bar>q - v / g\<bar> \<le> \<bar>v / g\<bar> / 2 ^ 53 + 1 / 2 ^ 1075"
    by blast
  define k where "k = round q"
  define K :: real where "K = \<bar>of_int k\<bar>"
  have "\<bar>of_int k - q\<bar> \<le> 1 / 2"
    unfolding k_def by (rule of_int_round_abs_le)
  moreover have "\<bar>v / g\<bar> / 2 ^ 53 \<le> 2 ^ 49 / 2 ^ 53"
    using x0 by (intro divide_right_mono) simp_all
  moreover have "(2::real) ^ 49 / 2 ^ 53 + 1 / 2 ^ 1075 \<le> 1 / 2" by simp
  ultimately have K: "K \<le> 2 ^ 49 + 1"
    using qe x0 unfolding K_def by linarith
  show ?thesis
  proof (cases "k = 0")
    case True
    have "fl (of_int (round q) * g) = Some 0"
      using True by (simp add: k_def [symmetric] fl_def)
    moreover have "fl (0 / g) = Some 0" by (simp add: fl_def)
    moreover have "round (0 :: real) = round q"
      using True by (simp add: k_def)
    ultimately show ?thesis using q by blast
  next
    case False
    then have K1: "1 \<le> K"
      unfolding K_def by (simp add: abs_if)
    have kg: "\<bar>of_int k * g\<bar> = K * \<bar>g\<bar>"
      by (simp add: K_def abs_mult)
    have "1 * \<bar>g\<bar> \<le> K * \<bar>g\<bar>"
      using K1 by (intro mult_right_mono) simp_all
    with g1 have lo: "1 / 2 ^ 1022 \<le> \<bar>of_int k * g\<bar>"
      unfolding kg by simp
    have "K * \<bar>g\<bar> \<le> (2 ^ 49 + 1) * 2 ^ 900"
      using K g2 K1 by (intro mult_mono) simp_all
    also have "\<dots> \<le> (2::real) ^ 1000" by simp
    finally have hi: "\<bar>of_int k * g\<bar> \<le> 2 ^ 1000"
      unfolding kg .
    from fl_error_normal [OF lo hi] obtain w where
      w: "fl (of_int k * g) = Some w" and we: "\<bar>w - of_int k * g\<bar> \<le> \<bar>of_int k * g\<bar> / 2 ^ 53"
      by blast
    have "w / g - of_int k = (w - of_int k * g) / g"
      using gnz by (simp add: field_simps)
    then have "\<bar>w / g - of_int k\<bar> = \<bar>w - of_int k * g\<bar> / \<bar>g\<bar>"
      by simp
    also have "\<dots> \<le> (K * \<bar>g\<bar> / 2 ^ 53) / \<bar>g\<bar>"
      using we gpos unfolding kg by (intro divide_right_mono) simp_all
    also have "\<dots> = K / 2 ^ 53"
      using gpos by simp
    finally have x1e: "\<bar>w / g - of_int k\<bar> \<le> K / 2 ^ 53" .
    have x1lo: "1 / 2 ^ 1022 \<le> \<bar>w / g\<bar>"
    proof -
      have "\<bar>w / g\<bar> \<ge> K - K / 2 ^ 53"
        using x1e unfolding K_def by linarith
      moreover have "K - K / 2 ^ 53 \<ge> 1 / 2"
        using K1 by simp
      moreover have "(1::real) / 2 ^ 1022 \<le> 1 / 2" by simp
      ultimately show ?thesis by linarith
    qed
    have x1hi: "\<bar>w / g\<bar> \<le> 2 ^ 1000"
    proof -
      have "\<bar>w / g\<bar> \<le> K + K / 2 ^ 53"
        using x1e unfolding K_def by linarith
      also have "\<dots> \<le> (2 ^ 49 + 1) + (2 ^ 49 + 1) / 2 ^ 53"
        using K by (intro add_mono divide_right_mono) simp_all
      also have "\<dots> \<le> (2::real) ^ 1000" by simp
      finally show ?thesis .
    qed
    from fl_error_normal [OF x1lo x1hi] obtain q' where
      q': "fl (w / g) = Some q'" and q'e: "\<bar>q' - w / g\<bar> \<le> \<bar>w / g\<bar> / 2 ^ 53"
      by blast
    have "\<bar>w / g\<bar> \<le> K + K / 2 ^ 53"
      using x1e unfolding K_def by linarith
    then have "\<bar>w / g\<bar> / 2 ^ 53 \<le> (K + K / 2 ^ 53) / 2 ^ 53"
      by (intro divide_right_mono) simp_all
    with q'e x1e have "\<bar>q' - of_int k\<bar> \<le> (K + K / 2 ^ 53) / 2 ^ 53 + K / 2 ^ 53"
      by linarith
    also have "\<dots> \<le> ((2 ^ 49 + 1) + (2 ^ 49 + 1) / 2 ^ 53) / 2 ^ 53 + (2 ^ 49 + 1) / 2 ^ 53"
      using K by (intro add_mono divide_right_mono) simp_all
    also have "\<dots> < 1 / 2" by simp
    finally have "\<bar>q' - of_int k\<bar> < 1 / 2" .
    then have "round q' = k" by (rule round_unique')
    with q w q' show ?thesis by (simp add: k_def)
  qed
qed

text \<open>
  The cells of the two classes, and some snapped values.
\<close>

lemma fl_zero: "fl 0 = Some 0"
  by (simp add: fl_def)

lemma fl_cell_small: "fl 0.005 = Some (5764607523034235 / 2 ^ 60)"
  using fl_eval_down [of 60 "0.005"] by (simp add: roundHalfEven_def)

lemma fl_cell_tenth: "fl (0.1 / 4) = Some (3602879701896397 / 2 ^ 57)"
  using fl_eval_down [of 58 "0.1 / 4"] by (simp add: roundHalfEven_def)

lemma fineGrid_small:
  assumes "isSmallItem (item_type item)"
  shows "fineGrid st item = Some (5764607523034235 / 2 ^ 60)"
  unfolding fineGrid_def Let_def by (simp only: assms if_True fl_cell_small)

lemma fineGrid_tenth:
  assumes "\<not> isSmallItem (item_type item)" and "gridSize st = 0.1"
  shows "fineGrid st item = Some (3602879701896397 / 2 ^ 57)"
  unfolding fineGrid_def Let_def by (simp only: assms if_False fl_cell_tenth)

lemma snapToGrid_zero:
  "fineGrid st item = Some cell \<Longrightarrow> cell \<noteq> 0 \<Longrightarrow> snapToGrid st item 0 = Some 0"
  by (simp add: snapToGrid_def fl_zero)

lemma snapToGrid_small_one:
  assumes "isSmallItem (item_type item)"
  shows "snapToGrid st item 1 = Some 1"
proof -
  have q: "fl (1 / (5764607523034235 / 2 ^ 60)) = Some 200"
    using fl_eval_down [of 45 "1 / (5764607523034235 / 2 ^ 60)"]
    by (simp add: roundHalfEven_def)
  have w: "fl (200 * (5764607523034235 / 2 ^ 60)) = Some 1"
    using fl_eval_down [of 52 "200 * (5764607523034235 / 2 ^ 60)"]
    by (simp add: roundHalfEven_def)
  show ?thesis
    using q w by (simp add: snapToGrid_def fineGrid_small [OF assms])
qed

lemma snapToGrid_tenth_ten:
  assumes "\<not> isSmallItem (item_type item)" and "gridSize st = 0.1"
  shows "snapToGrid st item 10 = Some 10"
proof -
  have q: "fl (10 / (3602879701896397 / 2 ^ 57)) = Some 400"
    using fl_eval_down [of 44 "10 / (3602879701896397 / 2 ^ 57)"]
    by (simp add: roundHalfEven_def)
  have w: "fl (400 * (3602879701896397 / 2 ^ 57)) = Some 10"
    using fl_eval_down [of 49 "400 * (3602879701896397 / 2 ^ 57)"]
    by (simp add: roundHalfEven_def)
  show ?thesis
    using q w by (simp add: snapToGrid_def fineGrid_tenth [OF assms])
qed

text \<open>
  C8, as the claim states it, fails for a coordinate far from the origin. With the grid
  size 0.1 the cell of a chair is the double nearest to 0.025. The coordinate
  \<open>107829570770263.671875\<close> is snapped to \<open>107829570770263.6875\<close>, and that value is
  snapped to \<open>107829570770263.703125\<close>: the quotient of the second snap is rounded to a
  double that lies exactly halfway between two integers, and \<open>Math.round\<close> takes the
  upper one.
\<close>

theorem snapToGrid_idempotent_counterexample:
  "fineGrid chairScene chair = Some (3602879701896397 / 2 ^ 57) \<and>
   snapToGrid chairScene chair (6901092529296875 / 64) = Some (1725273132324219 / 16) \<and>
   snapToGrid chairScene chair (1725273132324219 / 16) = Some (6901092529296877 / 64) \<and>
   (6901092529296877 / 64 :: real) \<noteq> 1725273132324219 / 16"
proof -
  have cell: "fineGrid chairScene chair = Some (3602879701896397 / 2 ^ 57)"
    by (rule fineGrid_tenth)
       (simp_all add: chairScene_def initialState_def chair_def isSmallItem_def smallTypes_def)
  have q1: "fl ((6901092529296875 / 64) / (3602879701896397 / 2 ^ 57))
              = Some (8626365661621093 / 2)"
    using fl_eval_down [of 1 "(6901092529296875 / 64) / (3602879701896397 / 2 ^ 57)"]
    by (simp add: roundHalfEven_def)
  have k1: "round (8626365661621093 / 2 :: real) = 4313182830810547"
    by (simp add: round_def)
  have w1: "fl (4313182830810547 * (3602879701896397 / 2 ^ 57)) = Some (1725273132324219 / 16)"
    using fl_eval_down [of 6 "4313182830810547 * (3602879701896397 / 2 ^ 57)"]
    by (simp add: roundHalfEven_def)
  have q2: "fl ((1725273132324219 / 16) / (3602879701896397 / 2 ^ 57))
              = Some (8626365661621095 / 2)"
    using fl_eval_down [of 1 "(1725273132324219 / 16) / (3602879701896397 / 2 ^ 57)"]
    by (simp add: roundHalfEven_def)
  have k2: "round (8626365661621095 / 2 :: real) = 4313182830810548"
    by (simp add: round_def)
  have w2: "fl (4313182830810548 * (3602879701896397 / 2 ^ 57)) = Some (6901092529296877 / 64)"
    using fl_eval_down [of 6 "4313182830810548 * (3602879701896397 / 2 ^ 57)"]
    by (simp add: roundHalfEven_def)
  have s1: "snapToGrid chairScene chair (6901092529296875 / 64) = Some (1725273132324219 / 16)"
    unfolding snapToGrid_def cell using q1 k1 w1 by simp
  have s2: "snapToGrid chairScene chair (1725273132324219 / 16) = Some (6901092529296877 / 64)"
    unfolding snapToGrid_def cell using q2 k2 w2 by simp
  from cell s1 s2 show ?thesis by simp
qed

text \<open>
  C8, amended. Snapping is idempotent on coordinates within \<open>2 ^ 49\<close> cells of the
  origin: when the cell is a normal double of size at most \<open>2 ^ 900\<close> (the cell of a
  small item, the double nearest to 0.005, is one, and so is a quarter of the grid size
  0.1) and \<open>|v|\<close> is at most \<open>2 ^ 49\<close> times the cell, then snapping \<open>v\<close> gives a
  finite value, and snapping that value returns it unchanged.
\<close>

theorem snapToGrid_idempotent_bounded:
  assumes cell: "fineGrid st item = Some cell"
    and normal: "1 / 2 ^ 1022 \<le> \<bar>cell\<bar>" "\<bar>cell\<bar> \<le> 2 ^ 900"
    and near: "\<bar>v\<bar> \<le> 2 ^ 49 * \<bar>cell\<bar>"
  shows "\<exists>w. snapToGrid st item v = Some w \<and> snapToGrid st item w = Some w"
proof -
  have nz: "cell \<noteq> 0"
    using normal(1) by auto
  from snap_twice [OF normal near] obtain q w q' where
    "fl (v / cell) = Some q" "fl (of_int (round q) * cell) = Some w"
    "fl (w / cell) = Some q'" "round q' = round q"
    by blast
  then have "snapToGrid st item v = Some w \<and> snapToGrid st item w = Some w"
    using cell nz by (simp add: snapToGrid_def)
  then show ?thesis by blast
qed

text \<open>
  A chair at the grid size 0.1 and a book: the coordinates 10 and 1 are snapped to
  themselves, and stay.
\<close>

theorem snapToGrid_idempotent_bounded_witness:
  "fineGrid chairScene chair = Some (3602879701896397 / 2 ^ 57) \<and>
   fineGrid twoBooksScene (book ''book_1'' (0, 0, 0)) = Some (5764607523034235 / 2 ^ 60) \<and>
   (\<exists>w. snapToGrid chairScene chair 10 = Some w \<and> snapToGrid chairScene chair w = Some w) \<and>
   (\<exists>w. snapToGrid twoBooksScene (book ''book_1'' (0, 0, 0)) 1 = Some w \<and>
        snapToGrid twoBooksScene (book ''book_1'' (0, 0, 0)) w = Some w) \<and>
   snapToGrid chairScene chair 10 = Some 10 \<and>
   snapToGrid twoBooksScene (book ''book_1'' (0, 0, 0)) 1 = Some 1"
proof -
  have large: "\<not> isSmallItem (item_type chair)" "gridSize chairScene = 0.1"
    by (simp_all add: chairScene_def initialState_def chair_def isSmallItem_def smallTypes_def)
  have small: "isSmallItem (item_type (book ''book_1'' (0, 0, 0)))"
    by (simp add: book_def isSmallItem_def smallTypes_def)
  note c1 = fineGrid_tenth [OF large]
  note c2 = fineGrid_small [OF small, of twoBooksScene]
  have "\<exists>w. snapToGrid chairScene chair 10 = Some w \<and> snapToGrid chairScene chair w = Some w"
    by (rule snapToGrid_idempotent_bounded [OF c1]) simp_all
  moreover have "\<exists>w. snapToGrid twoBooksScene (book ''book_1'' (0, 0, 0)) 1 = Some w \<and>
        snapToGrid twoBooksScene (book ''book_1'' (0, 0, 0)) w = Some w"
    by (rule snapToGrid_idempotent_bounded [OF c2]) simp_all
  ultimately show ?thesis
    using c1 c2 snapToGrid_tenth_ten [OF large] snapToGrid_small_one [OF small, of twoBooksScene]
    by simp
qed

section \<open>Properties of the drag handler\<close>

text \<open>
  The three branches of the handler, as equations: the release with a memo, and a move
  whose snapped coordinates are finite.
\<close>

lemma dragHandler_end:
  "dragHandler item \<lparr> active = False, first = False, memo = Some sp, pointerPos = p \<rparr> st loc =
     Some \<lparr> store =
              setIsDragging False
                (if checkCollision st item (posX (position item)) (posY (position item))
                      (posZ (position item))
                 then updateFurniturePosition (item_id item) sp st else st),
            localState = \<lparr> localDragging = False, hasCollision = False \<rparr>,
            memoOut = Some sp,
            placeSound =
              (\<not> checkCollision st item (posX (position item)) (posY (position item))
                    (posZ (position item))) \<rparr>"
  by (simp add: dragHandler_def Let_def)

lemma dragHandler_move_eq:
  "dragMove item pos st = Some (nx, y, nz) \<Longrightarrow>
   dragHandler item \<lparr> active = True, first = False, memo = m, pointerPos = Some pos \<rparr> st loc =
     Some \<lparr> store = updateFurniturePosition (item_id item) (nx, y, nz) st,
            localState = loc\<lparr>hasCollision := checkCollision st item nx y nz\<rparr>,
            memoOut = m,
            placeSound = False \<rparr>"
  by (simp add: dragHandler_def)

lemma targetFurniture_Some:
  "targetFurniture st = Some host \<Longrightarrow> detailModeTarget st = Some (item_id host)"
  by (auto simp add: targetFurniture_def find_Some_iff)

lemma dragMove_normal_eq:
  assumes "targetFurniture st = None"
    and "snapToGrid st item (fst pos) = Some sx" and "snapToGrid st item (snd pos) = Some sz"
  shows "dragMove item pos st =
           Some (max (- (room_width (roomDimensions st) / 2) + effectiveHalfWidth item)
                     (min (room_width (roomDimensions st) / 2 - effectiveHalfWidth item) sx),
                 posY (position item),
                 max (- (room_length (roomDimensions st) / 2) + effectiveHalfDepth item)
                     (min (room_length (roomDimensions st) / 2 - effectiveHalfDepth item) sz))"
  using assms by (simp add: dragMove_def clampPosition_def Let_def)

lemma dragMove_detail_eq:
  assumes "targetFurniture st = Some host"
    and "snapToGrid st item (fst pos) = Some sx" and "snapToGrid st item (snd pos) = Some sz"
  shows "dragMove item pos st =
           Some (max (posX (position host)
                        - (width (dimensions host) / 2 - width (dimensions item) / 2 - 0.02))
                     (min (posX (position host)
                        + (width (dimensions host) / 2 - width (dimensions item) / 2 - 0.02)) sx),
                 posY (position item),
                 max (posZ (position host)
                        - (depth (dimensions host) / 2 - depth (dimensions item) / 2 - 0.02))
                     (min (posZ (position host)
                        + (depth (dimensions host) / 2 - depth (dimensions item) / 2 - 0.02)) sz))"
proof -
  from assms(1) have "detailModeTarget st \<noteq> None"
    by (simp add: targetFurniture_Some)
  with assms show ?thesis
    by (simp add: dragMove_def Let_def)
qed

lemma dragMove_defined:
  assumes "snapToGrid st item (fst pos) = Some sx" and "snapToGrid st item (snd pos) = Some sz"
  shows "\<exists>nx nz. dragMove item pos st = Some (nx, posY (position item), nz)"
proof (cases "targetFurniture st")
  case None
  from dragMove_normal_eq [OF None assms] show ?thesis by blast
next
  case (Some host)
  from dragMove_detail_eq [OF Some assms] show ?thesis by blast
qed

lemma written_position:
  "f \<in> set (furniture (updateFurniturePosition i p st)) \<Longrightarrow> item_id f = i \<Longrightarrow> position f = p"
proof -
  assume mem: "f \<in> set (furniture (updateFurniturePosition i p st))" and i: "item_id f = i"
  from mem have "f \<in> (\<lambda>g. if item_id g = i then g\<lparr>position := p\<rparr> else g) ` set (furniture st)"
    by (simp add: updateFurniturePosition_def)
  then obtain g where g: "f = (if item_id g = i then g\<lparr>position := p\<rparr> else g)"
    by (rule imageE)
  show "position f = p"
  proof (cases "item_id g = i")
    case True
    with g show ?thesis by simp
  next
    case False
    with g i show ?thesis by simp
  qed
qed

subsection \<open>Positions written while dragging\<close>

lemma clampPosition_inside:
  assumes "clampPosition st item sx sz = (nx, nz)"
    and "effectiveHalfWidth item \<le> room_width (roomDimensions st) / 2"
    and "effectiveHalfDepth item \<le> room_length (roomDimensions st) / 2"
  shows "- (room_width (roomDimensions st) / 2) \<le> nx - effectiveHalfWidth item \<and>
         nx + effectiveHalfWidth item \<le> room_width (roomDimensions st) / 2 \<and>
         - (room_length (roomDimensions st) / 2) \<le> nz - effectiveHalfDepth item \<and>
         nz + effectiveHalfDepth item \<le> room_length (roomDimensions st) / 2"
proof -
  from assms(1)
  have "nx = max (- (room_width (roomDimensions st) / 2) + effectiveHalfWidth item)
                 (min (room_width (roomDimensions st) / 2 - effectiveHalfWidth item) sx)"
    and "nz = max (- (room_length (roomDimensions st) / 2) + effectiveHalfDepth item)
                  (min (room_length (roomDimensions st) / 2 - effectiveHalfDepth item) sz)"
    by (simp_all add: clampPosition_def Let_def)
  with assms(2,3) show ?thesis by linarith
qed

lemma effectiveHalf_unrotated:
  "rotation item = 0 \<Longrightarrow> effectiveHalfWidth item = width (dimensions item) / 2"
  "rotation item = 0 \<Longrightarrow> effectiveHalfDepth item = depth (dimensions item) / 2"
  by (simp_all add: effectiveHalfWidth_def effectiveHalfDepth_def Let_def)

lemma shrunk_half_le:
  assumes "0 \<le> width (dimensions item)" and "0 \<le> depth (dimensions item)"
  shows "effWidth item / 2 \<le> effectiveHalfWidth item" "effDepth item / 2 \<le> effectiveHalfDepth item"
proof -
  let ?a = "width (dimensions item) * \<bar>cos (yaw item)\<bar> + depth (dimensions item) * \<bar>sin (yaw item)\<bar>"
  let ?b = "width (dimensions item) * \<bar>sin (yaw item)\<bar> + depth (dimensions item) * \<bar>cos (yaw item)\<bar>"
  have a: "0 \<le> ?a" and b: "0 \<le> ?b"
    using assms by simp_all
  have k: "0 \<le> shrinkFactor item" "shrinkFactor item \<le> 1"
    by (simp_all add: shrinkFactor_def)
  have "?a * shrinkFactor item \<le> ?a * 1"
    using a k by (intro mult_left_mono) simp_all
  moreover have "effectiveHalfWidth item = ?a / 2"
    by (simp add: effectiveHalfWidth_def yaw_def Let_def add_divide_distrib)
  ultimately show "effWidth item / 2 \<le> effectiveHalfWidth item"
    by (simp add: effWidth_def)
  have "?b * shrinkFactor item \<le> ?b * 1"
    using b k by (intro mult_left_mono) simp_all
  moreover have "effectiveHalfDepth item = ?b / 2"
    by (simp add: effectiveHalfDepth_def yaw_def Let_def add_divide_distrib)
  ultimately show "effDepth item / 2 \<le> effectiveHalfDepth item"
    by (simp add: effDepth_def)
qed

lemma clamp_inside:
  fixes lo hi :: real
  assumes "lo \<le> hi"
  shows "lo \<le> max lo (min hi s)" and "max lo (min hi s) \<le> hi"
  using assms by simp_all

lemma large_tenth:
  "\<not> isSmallItem (item_type desk)" "\<not> isSmallItem (item_type bed)"
  "gridSize bedDeskScene = 0.1" "gridSize narrowRoom = 0.1"
  by (simp_all add: desk_def bed_def bedDeskScene_def narrowRoom_def initialState_def
        isSmallItem_def smallTypes_def)

lemma small_book: "isSmallItem (item_type (book i p))" "isSmallItem (item_type turnedBook)"
  by (simp_all add: book_def turnedBook_def isSmallItem_def smallTypes_def)

text \<open>
  C4, as the claim states it, fails when the item does not fit its container. In a room
  one metre wide the bed (1.6 m wide) is written at \<open>x = 0.3\<close>, and its box reaches
  \<open>x = 1.06\<close>, beyond the wall at \<open>0.5\<close>: the lower bound of the clamp wins over the
  upper one. It also fails for a turned item in detail mode: a book turned by 90 degrees on
  a shelf 0.3 deep is written at \<open>z = 0.115\<close>, and its box reaches \<open>z = 0.1525\<close>,
  beyond the shelf's edge at \<open>0.15\<close>, since the clamp of that branch takes the width and
  the depth of the item and of the host as they are, where \<open>clampPosition\<close> projects them
  by the rotation.
\<close>

theorem drag_move_clamped_counterexample:
  "dragHandler bed \<lparr> active = True, first = False, memo = Some (0, 0, 0), pointerPos = Some (0, 0) \<rparr>
     narrowRoom midDrag =
   Some \<lparr> store = narrowRoom\<lparr>furniture := [bed\<lparr>position := (0.3, 0, 0)\<rparr>]\<rparr>,
          localState = midDrag, memoOut = Some (0, 0, 0), placeSound = False \<rparr> \<and>
   detailModeTarget narrowRoom = None \<and>
   maxX (myBox bed 0.3 0 0) = 1.06 \<and>
   maxX (myBox bed 0.3 0 0) > room_width (roomDimensions narrowRoom) / 2 \<and>
   dragHandler turnedBook
     \<lparr> active = True, first = False, memo = Some (0, 0, 0), pointerPos = Some (0, 1) \<rparr>
     (shelfScene [turnedBook]) midDrag =
   Some \<lparr> store = shelfScene [turnedBook\<lparr>position := (0, 0.02, 0.115)\<rparr>],
          localState = midDrag, memoOut = Some (0, 0, 0), placeSound = False \<rparr> \<and>
   targetFurniture (shelfScene [turnedBook]) = Some bookshelf \<and>
   maxZ (myBox turnedBook 0 0.02 0.115) = 0.1525 \<and>
   maxZ (myBox turnedBook 0 0.02 0.115)
     > posZ (position bookshelf) + depth (dimensions bookshelf) / 2 \<and>
   maxZ (myBox turnedBook 0 0.02 0.115) > maxZ (otherBox bookshelf)"
proof -
  have s0: "snapToGrid narrowRoom bed 0 = Some 0"
    using fineGrid_tenth [OF large_tenth(2) large_tenth(4)] by (rule snapToGrid_zero) simp
  have b0: "snapToGrid (shelfScene [turnedBook]) turnedBook 0 = Some 0"
    using fineGrid_small [OF small_book(2)] by (rule snapToGrid_zero) simp
  have b1: "snapToGrid (shelfScene [turnedBook]) turnedBook 1 = Some 1"
    by (rule snapToGrid_small_one [OF small_book(2)])
  have t1: "targetFurniture narrowRoom = None"
    by (simp add: targetFurniture_def narrowRoom_def initialState_def bed_def)
  have t2: "targetFurniture (shelfScene [turnedBook]) = Some bookshelf"
    by (simp add: targetFurniture_def shelfScene_def initialState_def bookshelf_def)
  have m1: "dragMove bed (0, 0) narrowRoom = Some (0.3, 0, 0)"
    using dragMove_normal_eq [OF t1, of bed "(0, 0)" 0 0] s0
    by (simp add: effectiveHalfWidth_def effectiveHalfDepth_def narrowRoom_def initialState_def
          bed_def posY_def Let_def)
  have m2: "dragMove turnedBook (0, 1) (shelfScene [turnedBook]) = Some (0, 0.02, 0.115)"
    using dragMove_detail_eq [OF t2, of turnedBook "(0, 1)" 0 1] b0 b1
    by (simp add: bookshelf_def turnedBook_def book_def posX_def posY_def posZ_def)
  have h1: "dragHandler bed
       \<lparr> active = True, first = False, memo = Some (0, 0, 0), pointerPos = Some (0, 0) \<rparr>
       narrowRoom midDrag =
     Some \<lparr> store = narrowRoom\<lparr>furniture := [bed\<lparr>position := (0.3, 0, 0)\<rparr>]\<rparr>,
            localState = midDrag, memoOut = Some (0, 0, 0), placeSound = False \<rparr>"
    unfolding dragHandler_move_eq [OF m1]
    by (simp add: updateFurniturePosition_def checkCollision_def narrowRoom_def midDrag_def)
  have h2: "dragHandler turnedBook
       \<lparr> active = True, first = False, memo = Some (0, 0, 0), pointerPos = Some (0, 1) \<rparr>
       (shelfScene [turnedBook]) midDrag =
     Some \<lparr> store = shelfScene [turnedBook\<lparr>position := (0, 0.02, 0.115)\<rparr>],
            localState = midDrag, memoOut = Some (0, 0, 0), placeSound = False \<rparr>"
    unfolding dragHandler_move_eq [OF m2]
    by (simp add: updateFurniturePosition_def checkCollision_def shelfScene_def midDrag_def
          initialState_def bookshelf_def turnedBook_def book_def)
  have boxes: "maxX (myBox bed 0.3 0 0) = 1.06" "maxZ (myBox turnedBook 0 0.02 0.115) = 0.1525"
    "maxZ (otherBox bookshelf) = 0.1425"
    "posZ (position bookshelf) + depth (dimensions bookshelf) / 2 = 0.15"
    "room_width (roomDimensions narrowRoom) / 2 = 0.5"
    "detailModeTarget narrowRoom = None"
    by (simp_all add: myBox_def otherBox_def isSmallItem_def smallTypes_def bed_def
          bookshelf_def turnedBook_def book_def narrowRoom_def initialState_def
          posX_def posY_def posZ_def Let_def)
  show ?thesis
    unfolding h1 h2 t2 boxes by simp
qed

text \<open>
  C4, amended. A pointer move whose snapped coordinates are finite writes exactly one
  position to the entries of the dragged item, with the item's height unchanged, and
  records the collision verdict at that position. Outside detail mode the position is the
  snapped point clamped component-wise, \<open>max lo (min hi s)\<close>, to the room floor inset by
  the item's rotation-projected half-footprint; when that footprint is no larger than the
  floor, the footprint centred on the written position lies inside the floor, and so does
  the shrunk box of the collision check when the item's width and depth are not negative.
  In detail mode, for an unrotated item on an unrotated host, the position is the snapped
  point clamped component-wise to the host's footprint inset by the item's half-footprint
  and 0.02; when the host is at least 0.04 wider and deeper than the item, the item's
  footprint lies inside the host's footprint inset by 0.02. Nothing is said of a rotated
  item or host in detail mode.
\<close>

theorem drag_move_clamped:
  assumes sx: "snapToGrid st item (fst pos) = Some sx"
    and sz: "snapToGrid st item (snd pos) = Some sz"
  shows "\<exists>nx nz.
      dragHandler item \<lparr> active = True, first = False, memo = m, pointerPos = Some pos \<rparr> st loc =
        Some \<lparr> store = updateFurniturePosition (item_id item) (nx, posY (position item), nz) st,
               localState = loc\<lparr>hasCollision :=
                                  checkCollision st item nx (posY (position item)) nz\<rparr>,
               memoOut = m,
               placeSound = False \<rparr> \<and>
      (\<forall>f\<in>set (furniture
                   (updateFurniturePosition (item_id item) (nx, posY (position item), nz) st)).
         item_id f = item_id item \<longrightarrow> position f = (nx, posY (position item), nz)) \<and>
      (targetFurniture st = None \<longrightarrow>
         nx = max (- (room_width (roomDimensions st) / 2) + effectiveHalfWidth item)
                  (min (room_width (roomDimensions st) / 2 - effectiveHalfWidth item) sx) \<and>
         nz = max (- (room_length (roomDimensions st) / 2) + effectiveHalfDepth item)
                  (min (room_length (roomDimensions st) / 2 - effectiveHalfDepth item) sz) \<and>
         (effectiveHalfWidth item \<le> room_width (roomDimensions st) / 2 \<and>
          effectiveHalfDepth item \<le> room_length (roomDimensions st) / 2 \<longrightarrow>
            - (room_width (roomDimensions st) / 2) \<le> nx - effectiveHalfWidth item \<and>
            nx + effectiveHalfWidth item \<le> room_width (roomDimensions st) / 2 \<and>
            - (room_length (roomDimensions st) / 2) \<le> nz - effectiveHalfDepth item \<and>
            nz + effectiveHalfDepth item \<le> room_length (roomDimensions st) / 2 \<and>
            (0 \<le> width (dimensions item) \<and> 0 \<le> depth (dimensions item) \<longrightarrow>
               - (room_width (roomDimensions st) / 2)
                   \<le> minX (myBox item nx (posY (position item)) nz) \<and>
               maxX (myBox item nx (posY (position item)) nz)
                   \<le> room_width (roomDimensions st) / 2 \<and>
               - (room_length (roomDimensions st) / 2)
                   \<le> minZ (myBox item nx (posY (position item)) nz) \<and>
               maxZ (myBox item nx (posY (position item)) nz)
                   \<le> room_length (roomDimensions st) / 2))) \<and>
      (targetFurniture st = Some host \<and> rotation item = 0 \<and> rotation host = 0 \<longrightarrow>
         nx = max (posX (position host)
                     - (effectiveHalfWidth host - effectiveHalfWidth item - 0.02))
                  (min (posX (position host)
                     + (effectiveHalfWidth host - effectiveHalfWidth item - 0.02)) sx) \<and>
         nz = max (posZ (position host)
                     - (effectiveHalfDepth host - effectiveHalfDepth item - 0.02))
                  (min (posZ (position host)
                     + (effectiveHalfDepth host - effectiveHalfDepth item - 0.02)) sz) \<and>
         (effectiveHalfWidth item + 0.02 \<le> effectiveHalfWidth host \<and>
          effectiveHalfDepth item + 0.02 \<le> effectiveHalfDepth host \<longrightarrow>
            posX (position host) - effectiveHalfWidth host + 0.02
              \<le> nx - effectiveHalfWidth item \<and>
            nx + effectiveHalfWidth item
              \<le> posX (position host) + effectiveHalfWidth host - 0.02 \<and>
            posZ (position host) - effectiveHalfDepth host + 0.02
              \<le> nz - effectiveHalfDepth item \<and>
            nz + effectiveHalfDepth item
              \<le> posZ (position host) + effectiveHalfDepth host - 0.02))"
proof -
  let ?y = "posY (position item)"
  from dragMove_defined [OF sx sz] obtain nx nz
    where mv: "dragMove item pos st = Some (nx, ?y, nz)" by blast
  note handler = dragHandler_move_eq [OF mv, of m loc]
  have written: "\<forall>f\<in>set (furniture (updateFurniturePosition (item_id item) (nx, ?y, nz) st)).
         item_id f = item_id item \<longrightarrow> position f = (nx, ?y, nz)"
    using written_position by blast
  have normal: "nx = max (- (room_width (roomDimensions st) / 2) + effectiveHalfWidth item)
                  (min (room_width (roomDimensions st) / 2 - effectiveHalfWidth item) sx) \<and>
         nz = max (- (room_length (roomDimensions st) / 2) + effectiveHalfDepth item)
                  (min (room_length (roomDimensions st) / 2 - effectiveHalfDepth item) sz)"
    if "targetFurniture st = None"
    using dragMove_normal_eq [OF that sx sz] mv by simp
  have fits: "- (room_width (roomDimensions st) / 2) \<le> nx - effectiveHalfWidth item \<and>
            nx + effectiveHalfWidth item \<le> room_width (roomDimensions st) / 2 \<and>
            - (room_length (roomDimensions st) / 2) \<le> nz - effectiveHalfDepth item \<and>
            nz + effectiveHalfDepth item \<le> room_length (roomDimensions st) / 2"
    if "targetFurniture st = None"
      and "effectiveHalfWidth item \<le> room_width (roomDimensions st) / 2"
      and "effectiveHalfDepth item \<le> room_length (roomDimensions st) / 2"
    using normal [OF that(1)] that(2,3) by linarith
  have shrunk: "- (room_width (roomDimensions st) / 2) \<le> minX (myBox item nx ?y nz) \<and>
               maxX (myBox item nx ?y nz) \<le> room_width (roomDimensions st) / 2 \<and>
               - (room_length (roomDimensions st) / 2) \<le> minZ (myBox item nx ?y nz) \<and>
               maxZ (myBox item nx ?y nz) \<le> room_length (roomDimensions st) / 2"
    if "targetFurniture st = None"
      and "effectiveHalfWidth item \<le> room_width (roomDimensions st) / 2"
      and "effectiveHalfDepth item \<le> room_length (roomDimensions st) / 2"
      and "0 \<le> width (dimensions item)" and "0 \<le> depth (dimensions item)"
    using fits [OF that(1-3)] shrunk_half_le [OF that(4,5)]
    by (simp add: myBox_effectiveBox effectiveBox_def posX_def posZ_def)
  have detail: "nx = max (posX (position host)
                     - (effectiveHalfWidth host - effectiveHalfWidth item - 0.02))
                  (min (posX (position host)
                     + (effectiveHalfWidth host - effectiveHalfWidth item - 0.02)) sx) \<and>
         nz = max (posZ (position host)
                     - (effectiveHalfDepth host - effectiveHalfDepth item - 0.02))
                  (min (posZ (position host)
                     + (effectiveHalfDepth host - effectiveHalfDepth item - 0.02)) sz)"
    if "targetFurniture st = Some host" and "rotation item = 0" and "rotation host = 0"
    using dragMove_detail_eq [OF that(1) sx sz] mv that(2,3)
    by (simp add: effectiveHalf_unrotated)
  have dfits: "posX (position host) - effectiveHalfWidth host + 0.02
              \<le> nx - effectiveHalfWidth item \<and>
            nx + effectiveHalfWidth item
              \<le> posX (position host) + effectiveHalfWidth host - 0.02 \<and>
            posZ (position host) - effectiveHalfDepth host + 0.02
              \<le> nz - effectiveHalfDepth item \<and>
            nz + effectiveHalfDepth item
              \<le> posZ (position host) + effectiveHalfDepth host - 0.02"
    if "targetFurniture st = Some host" and "rotation item = 0" and "rotation host = 0"
      and "effectiveHalfWidth item + 0.02 \<le> effectiveHalfWidth host"
      and "effectiveHalfDepth item + 0.02 \<le> effectiveHalfDepth host"
    using detail [OF that(1-3)] that(4,5) by linarith
  have A: "targetFurniture st = None \<longrightarrow>
         nx = max (- (room_width (roomDimensions st) / 2) + effectiveHalfWidth item)
                  (min (room_width (roomDimensions st) / 2 - effectiveHalfWidth item) sx) \<and>
         nz = max (- (room_length (roomDimensions st) / 2) + effectiveHalfDepth item)
                  (min (room_length (roomDimensions st) / 2 - effectiveHalfDepth item) sz) \<and>
         (effectiveHalfWidth item \<le> room_width (roomDimensions st) / 2 \<and>
          effectiveHalfDepth item \<le> room_length (roomDimensions st) / 2 \<longrightarrow>
            - (room_width (roomDimensions st) / 2) \<le> nx - effectiveHalfWidth item \<and>
            nx + effectiveHalfWidth item \<le> room_width (roomDimensions st) / 2 \<and>
            - (room_length (roomDimensions st) / 2) \<le> nz - effectiveHalfDepth item \<and>
            nz + effectiveHalfDepth item \<le> room_length (roomDimensions st) / 2 \<and>
            (0 \<le> width (dimensions item) \<and> 0 \<le> depth (dimensions item) \<longrightarrow>
               - (room_width (roomDimensions st) / 2)
                   \<le> minX (myBox item nx (posY (position item)) nz) \<and>
               maxX (myBox item nx (posY (position item)) nz)
                   \<le> room_width (roomDimensions st) / 2 \<and>
               - (room_length (roomDimensions st) / 2)
                   \<le> minZ (myBox item nx (posY (position item)) nz) \<and>
               maxZ (myBox item nx (posY (position item)) nz)
                   \<le> room_length (roomDimensions st) / 2))"
  proof (intro impI)
    assume t: "targetFurniture st = None"
    note n = normal [OF t]
    have "effectiveHalfWidth item \<le> room_width (roomDimensions st) / 2 \<and>
          effectiveHalfDepth item \<le> room_length (roomDimensions st) / 2 \<longrightarrow>
            - (room_width (roomDimensions st) / 2) \<le> nx - effectiveHalfWidth item \<and>
            nx + effectiveHalfWidth item \<le> room_width (roomDimensions st) / 2 \<and>
            - (room_length (roomDimensions st) / 2) \<le> nz - effectiveHalfDepth item \<and>
            nz + effectiveHalfDepth item \<le> room_length (roomDimensions st) / 2 \<and>
            (0 \<le> width (dimensions item) \<and> 0 \<le> depth (dimensions item) \<longrightarrow>
               - (room_width (roomDimensions st) / 2)
                   \<le> minX (myBox item nx (posY (position item)) nz) \<and>
               maxX (myBox item nx (posY (position item)) nz)
                   \<le> room_width (roomDimensions st) / 2 \<and>
               - (room_length (roomDimensions st) / 2)
                   \<le> minZ (myBox item nx (posY (position item)) nz) \<and>
               maxZ (myBox item nx (posY (position item)) nz)
                   \<le> room_length (roomDimensions st) / 2)"
    proof (intro impI, elim conjE)
      assume h: "effectiveHalfWidth item \<le> room_width (roomDimensions st) / 2"
        "effectiveHalfDepth item \<le> room_length (roomDimensions st) / 2"
      note f = fits [OF t h]
      have "0 \<le> width (dimensions item) \<and> 0 \<le> depth (dimensions item) \<longrightarrow>
               - (room_width (roomDimensions st) / 2)
                   \<le> minX (myBox item nx (posY (position item)) nz) \<and>
               maxX (myBox item nx (posY (position item)) nz)
                   \<le> room_width (roomDimensions st) / 2 \<and>
               - (room_length (roomDimensions st) / 2)
                   \<le> minZ (myBox item nx (posY (position item)) nz) \<and>
               maxZ (myBox item nx (posY (position item)) nz)
                   \<le> room_length (roomDimensions st) / 2"
      proof (intro impI, elim conjE)
        assume d: "0 \<le> width (dimensions item)" "0 \<le> depth (dimensions item)"
        show "- (room_width (roomDimensions st) / 2)
                   \<le> minX (myBox item nx (posY (position item)) nz) \<and>
               maxX (myBox item nx (posY (position item)) nz)
                   \<le> room_width (roomDimensions st) / 2 \<and>
               - (room_length (roomDimensions st) / 2)
                   \<le> minZ (myBox item nx (posY (position item)) nz) \<and>
               maxZ (myBox item nx (posY (position item)) nz)
                   \<le> room_length (roomDimensions st) / 2"
          by (rule shrunk [OF t h d])
      qed
      with f show "- (room_width (roomDimensions st) / 2) \<le> nx - effectiveHalfWidth item \<and>
            nx + effectiveHalfWidth item \<le> room_width (roomDimensions st) / 2 \<and>
            - (room_length (roomDimensions st) / 2) \<le> nz - effectiveHalfDepth item \<and>
            nz + effectiveHalfDepth item \<le> room_length (roomDimensions st) / 2 \<and>
            (0 \<le> width (dimensions item) \<and> 0 \<le> depth (dimensions item) \<longrightarrow>
               - (room_width (roomDimensions st) / 2)
                   \<le> minX (myBox item nx (posY (position item)) nz) \<and>
               maxX (myBox item nx (posY (position item)) nz)
                   \<le> room_width (roomDimensions st) / 2 \<and>
               - (room_length (roomDimensions st) / 2)
                   \<le> minZ (myBox item nx (posY (position item)) nz) \<and>
               maxZ (myBox item nx (posY (position item)) nz)
                   \<le> room_length (roomDimensions st) / 2)"
        by (intro conjI) (elim conjE, assumption)+
    qed
    with n show "nx = max (- (room_width (roomDimensions st) / 2) + effectiveHalfWidth item)
                  (min (room_width (roomDimensions st) / 2 - effectiveHalfWidth item) sx) \<and>
         nz = max (- (room_length (roomDimensions st) / 2) + effectiveHalfDepth item)
                  (min (room_length (roomDimensions st) / 2 - effectiveHalfDepth item) sz) \<and>
         (effectiveHalfWidth item \<le> room_width (roomDimensions st) / 2 \<and>
          effectiveHalfDepth item \<le> room_length (roomDimensions st) / 2 \<longrightarrow>
            - (room_width (roomDimensions st) / 2) \<le> nx - effectiveHalfWidth item \<and>
            nx + effectiveHalfWidth item \<le> room_width (roomDimensions st) / 2 \<and>
            - (room_length (roomDimensions st) / 2) \<le> nz - effectiveHalfDepth item \<and>
            nz + effectiveHalfDepth item \<le> room_length (roomDimensions st) / 2 \<and>
            (0 \<le> width (dimensions item) \<and> 0 \<le> depth (dimensions item) \<longrightarrow>
               - (room_width (roomDimensions st) / 2)
                   \<le> minX (myBox item nx (posY (position item)) nz) \<and>
               maxX (myBox item nx (posY (position item)) nz)
                   \<le> room_width (roomDimensions st) / 2 \<and>
               - (room_length (roomDimensions st) / 2)
                   \<le> minZ (myBox item nx (posY (position item)) nz) \<and>
               maxZ (myBox item nx (posY (position item)) nz)
                   \<le> room_length (roomDimensions st) / 2))"
      by (intro conjI) (elim conjE, assumption)+
  qed
  have B: "targetFurniture st = Some host \<and> rotation item = 0 \<and> rotation host = 0 \<longrightarrow>
         nx = max (posX (position host)
                     - (effectiveHalfWidth host - effectiveHalfWidth item - 0.02))
                  (min (posX (position host)
                     + (effectiveHalfWidth host - effectiveHalfWidth item - 0.02)) sx) \<and>
         nz = max (posZ (position host)
                     - (effectiveHalfDepth host - effectiveHalfDepth item - 0.02))
                  (min (posZ (position host)
                     + (effectiveHalfDepth host - effectiveHalfDepth item - 0.02)) sz) \<and>
         (effectiveHalfWidth item + 0.02 \<le> effectiveHalfWidth host \<and>
          effectiveHalfDepth item + 0.02 \<le> effectiveHalfDepth host \<longrightarrow>
            posX (position host) - effectiveHalfWidth host + 0.02
              \<le> nx - effectiveHalfWidth item \<and>
            nx + effectiveHalfWidth item
              \<le> posX (position host) + effectiveHalfWidth host - 0.02 \<and>
            posZ (position host) - effectiveHalfDepth host + 0.02
              \<le> nz - effectiveHalfDepth item \<and>
            nz + effectiveHalfDepth item
              \<le> posZ (position host) + effectiveHalfDepth host - 0.02)"
  proof (intro impI, elim conjE)
    assume t: "targetFurniture st = Some host" "rotation item = 0" "rotation host = 0"
    note n = detail [OF t]
    have "effectiveHalfWidth item + 0.02 \<le> effectiveHalfWidth host \<and>
          effectiveHalfDepth item + 0.02 \<le> effectiveHalfDepth host \<longrightarrow>
            posX (position host) - effectiveHalfWidth host + 0.02
              \<le> nx - effectiveHalfWidth item \<and>
            nx + effectiveHalfWidth item
              \<le> posX (position host) + effectiveHalfWidth host - 0.02 \<and>
            posZ (position host) - effectiveHalfDepth host + 0.02
              \<le> nz - effectiveHalfDepth item \<and>
            nz + effectiveHalfDepth item
              \<le> posZ (position host) + effectiveHalfDepth host - 0.02"
    proof (intro impI, elim conjE)
      assume h: "effectiveHalfWidth item + 0.02 \<le> effectiveHalfWidth host"
        "effectiveHalfDepth item + 0.02 \<le> effectiveHalfDepth host"
      show "posX (position host) - effectiveHalfWidth host + 0.02
              \<le> nx - effectiveHalfWidth item \<and>
            nx + effectiveHalfWidth item
              \<le> posX (position host) + effectiveHalfWidth host - 0.02 \<and>
            posZ (position host) - effectiveHalfDepth host + 0.02
              \<le> nz - effectiveHalfDepth item \<and>
            nz + effectiveHalfDepth item
              \<le> posZ (position host) + effectiveHalfDepth host - 0.02"
        by (rule dfits [OF t h])
    qed
    with n show "nx = max (posX (position host)
                     - (effectiveHalfWidth host - effectiveHalfWidth item - 0.02))
                  (min (posX (position host)
                     + (effectiveHalfWidth host - effectiveHalfWidth item - 0.02)) sx) \<and>
         nz = max (posZ (position host)
                     - (effectiveHalfDepth host - effectiveHalfDepth item - 0.02))
                  (min (posZ (position host)
                     + (effectiveHalfDepth host - effectiveHalfDepth item - 0.02)) sz) \<and>
         (effectiveHalfWidth item + 0.02 \<le> effectiveHalfWidth host \<and>
          effectiveHalfDepth item + 0.02 \<le> effectiveHalfDepth host \<longrightarrow>
            posX (position host) - effectiveHalfWidth host + 0.02
              \<le> nx - effectiveHalfWidth item \<and>
            nx + effectiveHalfWidth item
              \<le> posX (position host) + effectiveHalfWidth host - 0.02 \<and>
            posZ (position host) - effectiveHalfDepth host + 0.02
              \<le> nz - effectiveHalfDepth item \<and>
            nz + effectiveHalfDepth item
              \<le> posZ (position host) + effectiveHalfDepth host - 0.02)"
      by (intro conjI) (elim conjE, assumption)+
  qed
  from handler written A B show ?thesis
    by (intro exI [of _ nx] exI [of _ nz] conjI)
qed

text \<open>
  The desk pulled to the far corner of the room stops at \<open>(1.9, 0, 1.7)\<close>, against the
  walls; a book pulled off the shelf stops at \<open>(0.305, 0.02, 0.115)\<close>, 2 cm inside the
  shelf's edge.
\<close>

theorem drag_move_clamped_witness:
  "snapToGrid bedDeskScene desk 10 = Some 10 \<and>
   targetFurniture bedDeskScene = None \<and>
   effectiveHalfWidth desk = 0.6 \<and> effectiveHalfDepth desk = 0.3 \<and>
   room_width (roomDimensions bedDeskScene) / 2 = 2.5 \<and>
   room_length (roomDimensions bedDeskScene) / 2 = 2 \<and>
   (\<exists>nx nz.
      dragHandler desk
        \<lparr> active = True, first = False, memo = Some (2, 0, 1.5), pointerPos = Some (10, 10) \<rparr>
        bedDeskScene midDrag =
      Some \<lparr> store = updateFurniturePosition (item_id desk) (nx, posY (position desk), nz)
                       bedDeskScene,
             localState = midDrag\<lparr>hasCollision :=
               checkCollision bedDeskScene desk nx (posY (position desk)) nz\<rparr>,
             memoOut = Some (2, 0, 1.5), placeSound = False \<rparr> \<and>
      nx = 1.9 \<and> nz = 1.7 \<and>
      nx + effectiveHalfWidth desk \<le> room_width (roomDimensions bedDeskScene) / 2 \<and>
      nz + effectiveHalfDepth desk \<le> room_length (roomDimensions bedDeskScene) / 2) \<and>
   snapToGrid (shelfScene [book ''book_1'' (0, 0.02, 0)]) (book ''book_1'' (0, 0.02, 0)) 1
     = Some 1 \<and>
   targetFurniture (shelfScene [book ''book_1'' (0, 0.02, 0)]) = Some bookshelf \<and>
   rotation (book ''book_1'' (0, 0.02, 0)) = 0 \<and> rotation bookshelf = 0 \<and>
   effectiveHalfWidth (book ''book_1'' (0, 0.02, 0)) = 0.075 \<and>
   effectiveHalfWidth bookshelf = 0.4 \<and>
   (\<exists>nx nz.
      dragHandler (book ''book_1'' (0, 0.02, 0))
        \<lparr> active = True, first = False, memo = Some (0, 0.02, 0), pointerPos = Some (1, 1) \<rparr>
        (shelfScene [book ''book_1'' (0, 0.02, 0)]) midDrag =
      Some \<lparr> store = updateFurniturePosition (item_id (book ''book_1'' (0, 0.02, 0)))
                       (nx, posY (position (book ''book_1'' (0, 0.02, 0))), nz)
                       (shelfScene [book ''book_1'' (0, 0.02, 0)]),
             localState = midDrag\<lparr>hasCollision :=
               checkCollision (shelfScene [book ''book_1'' (0, 0.02, 0)])
                 (book ''book_1'' (0, 0.02, 0)) nx
                 (posY (position (book ''book_1'' (0, 0.02, 0)))) nz\<rparr>,
             memoOut = Some (0, 0.02, 0), placeSound = False \<rparr> \<and>
      nx = 0.305 \<and> nz = 0.115 \<and>
      nx + effectiveHalfWidth (book ''book_1'' (0, 0.02, 0))
        \<le> posX (position bookshelf) + effectiveHalfWidth bookshelf - 0.02)"
proof -
  let ?b = "book ''book_1'' (0, 0.02, 0)"
  have s1: "snapToGrid bedDeskScene desk (fst (10, 10)) = Some 10"
    "snapToGrid bedDeskScene desk (snd (10, 10)) = Some 10"
    using snapToGrid_tenth_ten [OF large_tenth(1) large_tenth(3)] by simp_all
  have s2: "snapToGrid (shelfScene [?b]) ?b (fst (1, 1)) = Some 1"
    "snapToGrid (shelfScene [?b]) ?b (snd (1, 1)) = Some 1"
    using snapToGrid_small_one [OF small_book(1)] by simp_all
  have t1: "targetFurniture bedDeskScene = None"
    by (simp add: targetFurniture_def bedDeskScene_def initialState_def bed_def desk_def)
  have t2: "targetFurniture (shelfScene [?b]) = Some bookshelf"
    by (simp add: targetFurniture_def shelfScene_def initialState_def bookshelf_def)
  have e1: "effectiveHalfWidth desk = 0.6" "effectiveHalfDepth desk = 0.3"
    "room_width (roomDimensions bedDeskScene) / 2 = 2.5"
    "room_length (roomDimensions bedDeskScene) / 2 = 2"
    by (simp_all add: effectiveHalfWidth_def effectiveHalfDepth_def bedDeskScene_def
          initialState_def desk_def Let_def)
  have e2: "rotation ?b = 0" "rotation bookshelf = 0"
    "effectiveHalfWidth ?b = 0.075" "effectiveHalfWidth bookshelf = 0.4"
    "effectiveHalfDepth ?b = 0.015" "effectiveHalfDepth bookshelf = 0.15"
    "posX (position bookshelf) = 0" "posZ (position bookshelf) = 0"
    by (simp_all add: effectiveHalfWidth_def effectiveHalfDepth_def bookshelf_def book_def
          posX_def posZ_def Let_def)
  from drag_move_clamped [OF s1, where m = "Some (2, 0, 1.5)" and loc = midDrag]
  obtain nx nz where
    h1: "dragHandler desk
        \<lparr> active = True, first = False, memo = Some (2, 0, 1.5), pointerPos = Some (10, 10) \<rparr>
        bedDeskScene midDrag =
      Some \<lparr> store = updateFurniturePosition (item_id desk) (nx, posY (position desk), nz)
                       bedDeskScene,
             localState = midDrag\<lparr>hasCollision :=
               checkCollision bedDeskScene desk nx (posY (position desk)) nz\<rparr>,
             memoOut = Some (2, 0, 1.5), placeSound = False \<rparr>"
    and n1: "targetFurniture bedDeskScene = None \<longrightarrow>
         nx = max (- (room_width (roomDimensions bedDeskScene) / 2) + effectiveHalfWidth desk)
                  (min (room_width (roomDimensions bedDeskScene) / 2 - effectiveHalfWidth desk) 10) \<and>
         nz = max (- (room_length (roomDimensions bedDeskScene) / 2) + effectiveHalfDepth desk)
                  (min (room_length (roomDimensions bedDeskScene) / 2 - effectiveHalfDepth desk) 10)"
    by blast
  from n1 t1 have v1: "nx = 1.9" "nz = 1.7"
    unfolding e1 by simp_all
  from drag_move_clamped [OF s2, where m = "Some (0, 0.02, 0)" and loc = midDrag
      and host = bookshelf]
  obtain mx mz where
    h2: "dragHandler ?b
        \<lparr> active = True, first = False, memo = Some (0, 0.02, 0), pointerPos = Some (1, 1) \<rparr>
        (shelfScene [?b]) midDrag =
      Some \<lparr> store = updateFurniturePosition (item_id ?b) (mx, posY (position ?b), mz)
                       (shelfScene [?b]),
             localState = midDrag\<lparr>hasCollision :=
               checkCollision (shelfScene [?b]) ?b mx (posY (position ?b)) mz\<rparr>,
             memoOut = Some (0, 0.02, 0), placeSound = False \<rparr>"
    and n2: "targetFurniture (shelfScene [?b]) = Some bookshelf \<and> rotation ?b = 0 \<and>
             rotation bookshelf = 0 \<longrightarrow>
         mx = max (posX (position bookshelf)
                     - (effectiveHalfWidth bookshelf - effectiveHalfWidth ?b - 0.02))
                  (min (posX (position bookshelf)
                     + (effectiveHalfWidth bookshelf - effectiveHalfWidth ?b - 0.02)) 1) \<and>
         mz = max (posZ (position bookshelf)
                     - (effectiveHalfDepth bookshelf - effectiveHalfDepth ?b - 0.02))
                  (min (posZ (position bookshelf)
                     + (effectiveHalfDepth bookshelf - effectiveHalfDepth ?b - 0.02)) 1)"
    by blast
  from n2 t2 e2(1,2) have v2: "mx = 0.305" "mz = 0.115"
    unfolding e2 by simp_all
  have c1: "\<exists>nx nz.
      dragHandler desk
        \<lparr> active = True, first = False, memo = Some (2, 0, 1.5), pointerPos = Some (10, 10) \<rparr>
        bedDeskScene midDrag =
      Some \<lparr> store = updateFurniturePosition (item_id desk) (nx, posY (position desk), nz)
                       bedDeskScene,
             localState = midDrag\<lparr>hasCollision :=
               checkCollision bedDeskScene desk nx (posY (position desk)) nz\<rparr>,
             memoOut = Some (2, 0, 1.5), placeSound = False \<rparr> \<and>
      nx = 1.9 \<and> nz = 1.7 \<and>
      nx + effectiveHalfWidth desk \<le> room_width (roomDimensions bedDeskScene) / 2 \<and>
      nz + effectiveHalfDepth desk \<le> room_length (roomDimensions bedDeskScene) / 2"
  proof (rule exI [of _ nx], rule exI [of _ nz], intro conjI)
    show "nx + effectiveHalfWidth desk \<le> room_width (roomDimensions bedDeskScene) / 2"
      unfolding v1 e1 by simp
    show "nz + effectiveHalfDepth desk \<le> room_length (roomDimensions bedDeskScene) / 2"
      unfolding v1 e1 by simp
  qed (rule h1 v1)+
  have c2: "\<exists>nx nz.
      dragHandler ?b
        \<lparr> active = True, first = False, memo = Some (0, 0.02, 0), pointerPos = Some (1, 1) \<rparr>
        (shelfScene [?b]) midDrag =
      Some \<lparr> store = updateFurniturePosition (item_id ?b) (nx, posY (position ?b), nz)
                       (shelfScene [?b]),
             localState = midDrag\<lparr>hasCollision :=
               checkCollision (shelfScene [?b]) ?b nx (posY (position ?b)) nz\<rparr>,
             memoOut = Some (0, 0.02, 0), placeSound = False \<rparr> \<and>
      nx = 0.305 \<and> nz = 0.115 \<and>
      nx + effectiveHalfWidth ?b \<le> posX (position bookshelf) + effectiveHalfWidth bookshelf - 0.02"
  proof (rule exI [of _ mx], rule exI [of _ mz], intro conjI)
    show "mx + effectiveHalfWidth ?b \<le> posX (position bookshelf) + effectiveHalfWidth bookshelf - 0.02"
      unfolding v2 e2 by simp
  qed (rule h2 v2)+
  from s1 s2 t1 t2 e1 e2(1-4) c1 c2 show ?thesis
    by (simp only: fst_conv snd_conv simp_thms)
qed

subsection \<open>A drag from start to release\<close>

text \<open>
  A move keeps the memo and the dragged entry: after any number of moves the memo is
  still the one of the first call, and the item is still in the store.
\<close>

lemma snapToGrid_defined:
  assumes "fineGrid st item = Some cell"
    and "1 / 2 ^ 1022 \<le> \<bar>cell\<bar>" and "\<bar>cell\<bar> \<le> 2 ^ 900"
    and "\<bar>v\<bar> \<le> 2 ^ 49 * \<bar>cell\<bar>"
  shows "\<exists>w. snapToGrid st item v = Some w"
proof -
  have nz: "cell \<noteq> 0"
    using assms(2) by auto
  from snap_twice [OF assms(2-4)] obtain q w where
    "fl (v / cell) = Some q" "fl (of_int (round q) * cell) = Some w"
    by blast
  then have "snapToGrid st item v = Some w"
    using assms(1) nz by (simp add: snapToGrid_def)
  then show ?thesis by blast
qed

lemma find_id_update:
  "find (\<lambda>f. item_id f = i) xs = Some item \<Longrightarrow>
   find (\<lambda>f. item_id f = i) (map (\<lambda>f. if item_id f = i then f\<lparr>position := p\<rparr> else f) xs)
     = Some (item\<lparr>position := p\<rparr>)"
  by (induction xs) (simp_all split: if_splits)

lemma renderedItem_update:
  "renderedItem i st = Some item \<Longrightarrow>
   renderedItem i (updateFurniturePosition i p st) = Some (item\<lparr>position := p\<rparr>)"
  by (simp add: renderedItem_def updateFurniturePosition_def find_id_update)

lemma renderedItem_id: "renderedItem i st = Some item \<Longrightarrow> item_id item = i"
  by (auto simp add: renderedItem_def find_Some_iff)

lemma fineGrid_moved:
  "fineGrid (updateFurniturePosition i p st) (item\<lparr>position := q\<rparr>) = fineGrid st item"
  by (simp add: fineGrid_def updateFurniturePosition_def)

lemma dragStart_eq:
  assumes "renderedItem i st = Some item0"
  shows "dragStart i st loc =
           Some \<lparr> store = setSelectedId (Some i) SelFurniture (setIsDragging True st),
                  localState = loc\<lparr>localDragging := True\<rparr>,
                  memoOut = Some (position item0),
                  placeSound = False \<rparr>"
  using assms renderedItem_id [OF assms] by (simp add: dragStart_def dragHandler_def)

lemma dragHandler_idle_eq:
  "dragHandler item \<lparr> active = True, first = False, memo = m, pointerPos = None \<rparr> st loc =
     Some \<lparr> store = st, localState = loc, memoOut = m, placeSound = False \<rparr>"
  by (simp add: dragHandler_def)

lemma dragMoves_run:
  assumes "renderedItem i (store r) = Some item"
    and "fineGrid (store r) item = Some cell"
    and "1 / 2 ^ 1022 \<le> \<bar>cell\<bar>" and "\<bar>cell\<bar> \<le> 2 ^ 900"
    and "\<forall>q. Some q \<in> set ps \<longrightarrow> \<bar>fst q\<bar> \<le> 2 ^ 49 * \<bar>cell\<bar> \<and> \<bar>snd q\<bar> \<le> 2 ^ 49 * \<bar>cell\<bar>"
  shows "\<exists>r1. dragMoves i ps r = Some r1"
  using assms
proof (induction ps arbitrary: r item)
  case Nil
  then show ?case by simp
next
  case (Cons p ps)
  have rest: "\<forall>q. Some q \<in> set ps \<longrightarrow> \<bar>fst q\<bar> \<le> 2 ^ 49 * \<bar>cell\<bar> \<and> \<bar>snd q\<bar> \<le> 2 ^ 49 * \<bar>cell\<bar>"
  proof (intro allI impI)
    fix q
    assume "Some q \<in> set ps"
    then have "Some q \<in> set (p # ps)"
      by simp
    with Cons.prems(5) show "\<bar>fst q\<bar> \<le> 2 ^ 49 * \<bar>cell\<bar> \<and> \<bar>snd q\<bar> \<le> 2 ^ 49 * \<bar>cell\<bar>"
      by blast
  qed
  show ?case
  proof (cases p)
    case None
    define r' where "r' =
       \<lparr> store = store r, localState = localState r, memoOut = memoOut r, placeSound = False \<rparr>"
    have h: "dragHandler item
               \<lparr> active = True, first = False, memo = memoOut r, pointerPos = p \<rparr>
               (store r) (localState r) = Some r'"
      unfolding r'_def None by (rule dragHandler_idle_eq)
    have st': "store r' = store r"
      by (simp add: r'_def)
    from Cons.IH [of r' item] Cons.prems(1-4) rest obtain r1 where
      "dragMoves i ps r' = Some r1"
      unfolding st' by blast
    moreover have "dragMoves i (p # ps) r = dragMoves i ps r'"
      using Cons.prems(1) h by simp
    ultimately show ?thesis by simp
  next
    case (Some q)
    have "Some q \<in> set (p # ps)"
      by (simp add: Some)
    with Cons.prems(5) have near: "\<bar>fst q\<bar> \<le> 2 ^ 49 * \<bar>cell\<bar>" "\<bar>snd q\<bar> \<le> 2 ^ 49 * \<bar>cell\<bar>"
      by blast+
    from snapToGrid_defined [OF Cons.prems(2-4) near(1)] obtain sx
      where sx: "snapToGrid (store r) item (fst q) = Some sx" by blast
    from snapToGrid_defined [OF Cons.prems(2-4) near(2)] obtain sz
      where sz: "snapToGrid (store r) item (snd q) = Some sz" by blast
    from dragMove_defined [OF sx sz] obtain nx nz
      where mv: "dragMove item q (store r) = Some (nx, posY (position item), nz)" by blast
    define r' where "r' =
       \<lparr> store = updateFurniturePosition (item_id item) (nx, posY (position item), nz) (store r),
         localState = (localState r)\<lparr>hasCollision :=
                         checkCollision (store r) item nx (posY (position item)) nz\<rparr>,
         memoOut = memoOut r,
         placeSound = False \<rparr>"
    have h: "dragHandler item
               \<lparr> active = True, first = False, memo = memoOut r, pointerPos = p \<rparr>
               (store r) (localState r) = Some r'"
      unfolding r'_def Some by (rule dragHandler_move_eq [OF mv])
    have id: "item_id item = i"
      by (rule renderedItem_id [OF Cons.prems(1)])
    have st': "store r' = updateFurniturePosition i (nx, posY (position item), nz) (store r)"
      by (simp add: r'_def id)
    have ri: "renderedItem i (store r') = Some (item\<lparr>position := (nx, posY (position item), nz)\<rparr>)"
      unfolding st' by (rule renderedItem_update [OF Cons.prems(1)])
    have fg: "fineGrid (store r') (item\<lparr>position := (nx, posY (position item), nz)\<rparr>) = Some cell"
      unfolding st' fineGrid_moved by (rule Cons.prems(2))
    from Cons.IH [OF ri fg Cons.prems(3,4) rest] obtain r1 where
      "dragMoves i ps r' = Some r1"
      by blast
    moreover have "dragMoves i (p # ps) r = dragMoves i ps r'"
      using Cons.prems(1) h by simp
    ultimately show ?thesis by simp
  qed
qed

lemma dragMoves_keeps:
  assumes "dragMoves i ps r = Some r1" and "renderedItem i (store r) = Some item"
  shows "memoOut r1 = memoOut r \<and> (\<exists>item1. renderedItem i (store r1) = Some item1)"
  using assms
proof (induction ps arbitrary: r item)
  case Nil
  then show ?case by simp
next
  case (Cons p ps)
  from Cons.prems obtain r' where
    h: "dragHandler item
          \<lparr> active = True, first = False, memo = memoOut r, pointerPos = p \<rparr>
          (store r) (localState r) = Some r'"
    and rest: "dragMoves i ps r' = Some r1"
    by (auto split: option.splits)
  have "memoOut r' = memoOut r \<and> (\<exists>item'. renderedItem i (store r') = Some item')"
  proof (cases p)
    case None
    from h have "r' =
       \<lparr> store = store r, localState = localState r, memoOut = memoOut r, placeSound = False \<rparr>"
      unfolding None dragHandler_idle_eq by simp
    then show ?thesis
      using Cons.prems(2) by simp
  next
    case (Some q)
    from h obtain nx y nz where
      mv: "dragMove item q (store r) = Some (nx, y, nz)"
      unfolding Some by (auto simp add: dragHandler_def split: option.splits)
    from h have r': "r' =
       \<lparr> store = updateFurniturePosition (item_id item) (nx, y, nz) (store r),
         localState = (localState r)\<lparr>hasCollision := checkCollision (store r) item nx y nz\<rparr>,
         memoOut = memoOut r,
         placeSound = False \<rparr>"
      unfolding Some dragHandler_move_eq [OF mv] by simp
    have id: "item_id item = i"
      by (rule renderedItem_id [OF Cons.prems(2)])
    have st': "store r' = updateFurniturePosition i (nx, y, nz) (store r)"
      by (simp add: r' id)
    have "renderedItem i (store r') = Some (item\<lparr>position := (nx, y, nz)\<rparr>)"
      unfolding st' by (rule renderedItem_update [OF Cons.prems(2)])
    then show ?thesis
      by (simp add: r')
  qed
  then obtain item' where
    m': "memoOut r' = memoOut r" and ri: "renderedItem i (store r') = Some item'"
    by blast
  from Cons.IH [OF rest ri] m' show ?case
    by simp
qed

lemma dragRelease_outcome:
  assumes ri1: "renderedItem i (store r1) = Some item1"
    and m1: "memoOut r1 = Some sp"
  shows "\<exists>r. dragRelease i r1 = Some r \<and>
      \<not> isDragging (store r) \<and> \<not> localDragging (localState r) \<and>
      (if checkCollision (store r1) item1 (posX (position item1)) (posY (position item1))
            (posZ (position item1))
       then furniture (store r) =
              map (\<lambda>f. if item_id f = i then f\<lparr>position := sp\<rparr> else f)
                (furniture (store r1)) \<and>
            renderedItem i (store r) = Some (item1\<lparr>position := sp\<rparr>) \<and>
            \<not> placeSound r
       else furniture (store r) = furniture (store r1) \<and>
            renderedItem i (store r) = Some item1 \<and>
            placeSound r)"
proof -
  have id1: "item_id item1 = i"
    by (rule renderedItem_id [OF ri1])
  let ?c = "checkCollision (store r1) item1 (posX (position item1)) (posY (position item1))
              (posZ (position item1))"
  define r where "r =
     \<lparr> store = setIsDragging False
                 (if ?c then updateFurniturePosition (item_id item1) sp (store r1)
                  else store r1),
       localState = \<lparr> localDragging = False, hasCollision = False \<rparr>,
       memoOut = Some sp,
       placeSound = (\<not> ?c) \<rparr>"
  have release: "dragRelease i r1 = Some r"
    unfolding r_def dragRelease_def ri1 m1 by (simp add: dragHandler_end)
  have flags: "\<not> isDragging (store r)" "\<not> localDragging (localState r)"
    by (simp_all add: r_def setIsDragging_def)
  have same: "renderedItem i (setIsDragging False s) = renderedItem i s" for s
    by (simp add: renderedItem_def setIsDragging_def)
  have outcome: "if ?c
       then furniture (store r) =
              map (\<lambda>f. if item_id f = i then f\<lparr>position := sp\<rparr> else f)
                (furniture (store r1)) \<and>
            renderedItem i (store r) = Some (item1\<lparr>position := sp\<rparr>) \<and>
            \<not> placeSound r
       else furniture (store r) = furniture (store r1) \<and>
            renderedItem i (store r) = Some item1 \<and>
            placeSound r"
  proof (cases ?c)
    case True
    have "store r = setIsDragging False (updateFurniturePosition i sp (store r1))"
      using True by (simp add: r_def id1)
    moreover have "placeSound r = False"
      using True by (simp add: r_def)
    ultimately show ?thesis
      using True renderedItem_update [OF ri1, of sp]
      by (simp add: same) (simp add: setIsDragging_def updateFurniturePosition_def)
  next
    case False
    have "store r = setIsDragging False (store r1)"
      using False by (simp add: r_def)
    moreover have "placeSound r = True"
      using False by (simp add: r_def)
    ultimately show ?thesis
      using False ri1 by (simp add: same) (simp add: setIsDragging_def)
  qed
  from release flags outcome show ?thesis
    by blast
qed

text \<open>
  C2. A drag of an item that is in the store: the first call answers and returns as memo
  the item's position at that moment. After any pointer moves, with or without a point
  under the pointer, that wrote finite positions, the memo is still that position, and the
  release call (pointer-up or pointer-cancel) answers, ends the drag, and clears the shared
  \<open>isDragging\<close> flag and the component's own. If the item's live position collides,
  every furniture entry with the item's id gets exactly the position captured at the start,
  the others are left as the moves left them, and no placement sound is played; if it does
  not collide, the furniture is left as the moves left it and the placement sound is
  played. The moves do write finite positions when the cell is a normal double and the
  pointer stays within \<open>2 ^ 49\<close> cells of the origin.
\<close>

theorem drag_session_commit_or_revert:
  assumes item0: "renderedItem i st = Some item0"
  shows "\<exists>r0.
      dragStart i st loc = Some r0 \<and> memoOut r0 = Some (position item0) \<and>
      (\<forall>r1. dragMoves i ps r0 = Some r1 \<longrightarrow>
         memoOut r1 = Some (position item0) \<and>
         (\<exists>item1 r.
            renderedItem i (store r1) = Some item1 \<and>
            dragRelease i r1 = Some r \<and>
            dragSession i ps st loc = Some r \<and>
            \<not> isDragging (store r) \<and> \<not> localDragging (localState r) \<and>
            (if checkCollision (store r1) item1 (posX (position item1)) (posY (position item1))
                  (posZ (position item1))
             then furniture (store r) =
                    map (\<lambda>f. if item_id f = i then f\<lparr>position := position item0\<rparr> else f)
                      (furniture (store r1)) \<and>
                  renderedItem i (store r) = Some (item1\<lparr>position := position item0\<rparr>) \<and>
                  \<not> placeSound r
             else furniture (store r) = furniture (store r1) \<and>
                  renderedItem i (store r) = Some item1 \<and>
                  placeSound r))) \<and>
      (\<forall>cell. fineGrid st item0 = Some cell \<and> 1 / 2 ^ 1022 \<le> \<bar>cell\<bar> \<and> \<bar>cell\<bar> \<le> 2 ^ 900 \<and>
           (\<forall>q. Some q \<in> set ps \<longrightarrow> \<bar>fst q\<bar> \<le> 2 ^ 49 * \<bar>cell\<bar> \<and> \<bar>snd q\<bar> \<le> 2 ^ 49 * \<bar>cell\<bar>) \<longrightarrow>
         (\<exists>r1. dragMoves i ps r0 = Some r1))"
proof -
  define r0 where "r0 =
     \<lparr> store = setSelectedId (Some i) SelFurniture (setIsDragging True st),
       localState = loc\<lparr>localDragging := True\<rparr>,
       memoOut = Some (position item0),
       placeSound = False \<rparr>"
  have start: "dragStart i st loc = Some r0"
    unfolding r0_def by (rule dragStart_eq [OF item0])
  have m0: "memoOut r0 = Some (position item0)"
    by (simp add: r0_def)
  have ri0: "renderedItem i (store r0) = Some item0"
    using item0 by (simp add: r0_def renderedItem_def setSelectedId_def setIsDragging_def)
  have fg0: "fineGrid (store r0) item0 = fineGrid st item0"
    unfolding fineGrid_def by (simp add: r0_def setSelectedId_def setIsDragging_def)
  have ended: "memoOut r1 = Some (position item0) \<and>
         (\<exists>item1 r.
            renderedItem i (store r1) = Some item1 \<and>
            dragRelease i r1 = Some r \<and>
            dragSession i ps st loc = Some r \<and>
            \<not> isDragging (store r) \<and> \<not> localDragging (localState r) \<and>
            (if checkCollision (store r1) item1 (posX (position item1)) (posY (position item1))
                  (posZ (position item1))
             then furniture (store r) =
                    map (\<lambda>f. if item_id f = i then f\<lparr>position := position item0\<rparr> else f)
                      (furniture (store r1)) \<and>
                  renderedItem i (store r) = Some (item1\<lparr>position := position item0\<rparr>) \<and>
                  \<not> placeSound r
             else furniture (store r) = furniture (store r1) \<and>
                  renderedItem i (store r) = Some item1 \<and>
                  placeSound r))"
    if moves: "dragMoves i ps r0 = Some r1" for r1
  proof -
    from dragMoves_keeps [OF moves ri0] obtain item1 where
      m1: "memoOut r1 = Some (position item0)"
      and ri1: "renderedItem i (store r1) = Some item1"
      by (auto simp add: m0)
    from dragRelease_outcome [OF ri1 m1] obtain r where
      release: "dragRelease i r1 = Some r"
      and rest: "\<not> isDragging (store r)" "\<not> localDragging (localState r)"
        "if checkCollision (store r1) item1 (posX (position item1)) (posY (position item1))
              (posZ (position item1))
         then furniture (store r) =
                map (\<lambda>f. if item_id f = i then f\<lparr>position := position item0\<rparr> else f)
                  (furniture (store r1)) \<and>
              renderedItem i (store r) = Some (item1\<lparr>position := position item0\<rparr>) \<and>
              \<not> placeSound r
         else furniture (store r) = furniture (store r1) \<and>
              renderedItem i (store r) = Some item1 \<and>
              placeSound r"
      by blast
    have session: "dragSession i ps st loc = Some r"
      by (simp add: dragSession_def start moves release)
    from m1 ri1 release session rest show ?thesis
      by blast
  qed
  have runs: "\<exists>r1. dragMoves i ps r0 = Some r1"
    if "fineGrid st item0 = Some cell \<and> 1 / 2 ^ 1022 \<le> \<bar>cell\<bar> \<and> \<bar>cell\<bar> \<le> 2 ^ 900 \<and>
        (\<forall>q. Some q \<in> set ps \<longrightarrow> \<bar>fst q\<bar> \<le> 2 ^ 49 * \<bar>cell\<bar> \<and> \<bar>snd q\<bar> \<le> 2 ^ 49 * \<bar>cell\<bar>)" for cell
  proof -
    from that have c: "fineGrid (store r0) item0 = Some cell"
      and n: "1 / 2 ^ 1022 \<le> \<bar>cell\<bar>" "\<bar>cell\<bar> \<le> 2 ^ 900"
      and near: "\<forall>q. Some q \<in> set ps \<longrightarrow> \<bar>fst q\<bar> \<le> 2 ^ 49 * \<bar>cell\<bar> \<and> \<bar>snd q\<bar> \<le> 2 ^ 49 * \<bar>cell\<bar>"
      by (simp_all add: fg0)
    from dragMoves_run [OF ri0 c n near] show ?thesis
      by blast
  qed
  show ?thesis
  proof (rule exI [of _ r0], intro conjI allI impI)
    show "dragStart i st loc = Some r0" by (rule start)
    show "memoOut r0 = Some (position item0)" by (rule m0)
    show "\<exists>r1. dragMoves i ps r0 = Some r1"
      if "fineGrid st item0 = Some cell \<and> 1 / 2 ^ 1022 \<le> \<bar>cell\<bar> \<and> \<bar>cell\<bar> \<le> 2 ^ 900 \<and>
          (\<forall>q. Some q \<in> set ps \<longrightarrow> \<bar>fst q\<bar> \<le> 2 ^ 49 * \<bar>cell\<bar> \<and> \<bar>snd q\<bar> \<le> 2 ^ 49 * \<bar>cell\<bar>)" for cell
      using that by (rule runs)
    show "memoOut r1 = Some (position item0)" if "dragMoves i ps r0 = Some r1" for r1
      using ended [OF that] by simp
    show "\<exists>item1 r.
            renderedItem i (store r1) = Some item1 \<and>
            dragRelease i r1 = Some r \<and>
            dragSession i ps st loc = Some r \<and>
            \<not> isDragging (store r) \<and> \<not> localDragging (localState r) \<and>
            (if checkCollision (store r1) item1 (posX (position item1)) (posY (position item1))
                  (posZ (position item1))
             then furniture (store r) =
                    map (\<lambda>f. if item_id f = i then f\<lparr>position := position item0\<rparr> else f)
                      (furniture (store r1)) \<and>
                  renderedItem i (store r) = Some (item1\<lparr>position := position item0\<rparr>) \<and>
                  \<not> placeSound r
             else furniture (store r) = furniture (store r1) \<and>
                  renderedItem i (store r) = Some item1 \<and>
                  placeSound r)" if "dragMoves i ps r0 = Some r1" for r1
      using ended [OF that] by simp
  qed
qed

text \<open>
  The scenario of the design: the desk, picked up at \<open>(2, 0, 1.5)\<close>, pulled to the far
  corner, then over the bed at the origin (with one move in between that has no point) and
  released there, goes back to where it was picked up, without a sound; released in the corner, where it does not collide, it stays there and the sound
  is played.
\<close>

lemma desk_dragMove:
  assumes "roomDimensions st = \<lparr> room_width = 5, room_length = 4, room_height = 2.8 \<rparr>"
    and "detailModeTarget st = None" and "gridSize st = 0.1"
  shows "dragMove (desk\<lparr>position := (x, 0, z)\<rparr>) (10, 10) st = Some (1.9, 0, 1.7)"
    and "dragMove (desk\<lparr>position := (x, 0, z)\<rparr>) (0, 0) st = Some (0, 0, 0)"
proof -
  let ?d = "desk\<lparr>position := (x, 0, z)\<rparr>"
  have large: "\<not> isSmallItem (item_type ?d)"
    using large_tenth(1) by simp
  have ten: "snapToGrid st ?d 10 = Some 10"
    by (rule snapToGrid_tenth_ten [OF large assms(3)])
  have zero: "snapToGrid st ?d 0 = Some 0"
    by (rule snapToGrid_zero [OF fineGrid_tenth [OF large assms(3)]]) simp
  have t: "targetFurniture st = None"
    by (simp add: targetFurniture_def assms(2) find_None_iff)
  have e: "effectiveHalfWidth ?d = 0.6" "effectiveHalfDepth ?d = 0.3" "posY (position ?d) = 0"
    by (simp_all add: effectiveHalfWidth_def effectiveHalfDepth_def desk_def posY_def Let_def)
  show "dragMove ?d (10, 10) st = Some (1.9, 0, 1.7)"
    using dragMove_normal_eq [OF t, of ?d "(10, 10)" 10 10] ten
    unfolding e assms(1) by simp
  show "dragMove ?d (0, 0) st = Some (0, 0, 0)"
    using dragMove_normal_eq [OF t, of ?d "(0, 0)" 0 0] zero
    unfolding e assms(1) by simp
qed

lemma desk_step:
  assumes "roomDimensions (store r) = \<lparr> room_width = 5, room_length = 4, room_height = 2.8 \<rparr>"
    and "detailModeTarget (store r) = None" and "gridSize (store r) = 0.1"
    and "furniture (store r) = [bed, desk\<lparr>position := (x, 0, z)\<rparr>]"
    and "dragMove (desk\<lparr>position := (x, 0, z)\<rparr>) p (store r) = Some (nx, 0, nz)"
  shows "\<exists>r'. dragMoves ''desk_1'' (Some p # ps) r = dragMoves ''desk_1'' ps r' \<and>
           memoOut r' = memoOut r \<and>
           roomDimensions (store r') = \<lparr> room_width = 5, room_length = 4, room_height = 2.8 \<rparr> \<and>
           detailModeTarget (store r') = None \<and> gridSize (store r') = 0.1 \<and>
           furniture (store r') = [bed, desk\<lparr>position := (nx, 0, nz)\<rparr>]"
proof -
  let ?d = "desk\<lparr>position := (x, 0, z)\<rparr>"
  have ri: "renderedItem ''desk_1'' (store r) = Some ?d"
    by (simp add: renderedItem_def assms(4) bed_def desk_def)
  define r' where "r' =
     \<lparr> store = updateFurniturePosition (item_id ?d) (nx, 0, nz) (store r),
       localState = (localState r)\<lparr>hasCollision := checkCollision (store r) ?d nx 0 nz\<rparr>,
       memoOut = memoOut r,
       placeSound = False \<rparr>"
  have h: "dragHandler ?d
             \<lparr> active = True, first = False, memo = memoOut r, pointerPos = Some p \<rparr>
             (store r) (localState r) = Some r'"
    unfolding r'_def by (rule dragHandler_move_eq [OF assms(5)])
  have step: "dragMoves ''desk_1'' (Some p # ps) r = dragMoves ''desk_1'' ps r'"
    by (simp add: ri h)
  have kept: "memoOut r' = memoOut r"
    "roomDimensions (store r') = \<lparr> room_width = 5, room_length = 4, room_height = 2.8 \<rparr>"
    "detailModeTarget (store r') = None" "gridSize (store r') = 0.1"
    using assms(1-3) by (simp_all add: r'_def updateFurniturePosition_def)
  have moved: "furniture (store r') = [bed, desk\<lparr>position := (nx, 0, nz)\<rparr>]"
    by (simp add: r'_def updateFurniturePosition_def assms(4) bed_def desk_def)
  from step kept moved show ?thesis
    by blast
qed

lemma desk_idle:
  assumes "furniture (store r) = [bed, desk\<lparr>position := (x, 0, z)\<rparr>]"
  shows "\<exists>r'. dragMoves ''desk_1'' (None # ps) r = dragMoves ''desk_1'' ps r' \<and>
           memoOut r' = memoOut r \<and> store r' = store r"
proof -
  let ?d = "desk\<lparr>position := (x, 0, z)\<rparr>"
  have ri: "renderedItem ''desk_1'' (store r) = Some ?d"
    by (simp add: renderedItem_def assms bed_def desk_def)
  define r' where "r' =
     \<lparr> store = store r, localState = localState r, memoOut = memoOut r, placeSound = False \<rparr>"
  have "dragMoves ''desk_1'' (None # ps) r = dragMoves ''desk_1'' ps r'"
    by (simp add: ri dragHandler_idle_eq r'_def)
  moreover have "memoOut r' = memoOut r" "store r' = store r"
    by (simp_all add: r'_def)
  ultimately show ?thesis
    by blast
qed

lemma desk_onto_bed:
  assumes "furniture st = [bed, desk\<lparr>position := (0, 0, 0)\<rparr>]"
    and "detailModeTarget st = None"
  shows "checkCollision st (desk\<lparr>position := (0, 0, 0)\<rparr>) 0 0 0"
  by (simp add: checkCollision_def assms myBox_def otherBox_def boxesOverlap_def bed_def
        desk_def isSmallItem_def smallTypes_def posX_def posY_def posZ_def Let_def)

lemma desk_beside_bed:
  assumes "furniture st = [bed, desk\<lparr>position := (1.9, 0, 1.7)\<rparr>]"
    and "detailModeTarget st = None"
  shows "\<not> checkCollision st (desk\<lparr>position := (1.9, 0, 1.7)\<rparr>) 1.9 0 1.7"
  by (simp add: checkCollision_def assms myBox_def otherBox_def boxesOverlap_def bed_def
        desk_def isSmallItem_def smallTypes_def posX_def posY_def posZ_def Let_def)

theorem drag_session_commit_or_revert_witness:
  "renderedItem ''desk_1'' bedDeskScene = Some desk \<and>
   fineGrid bedDeskScene desk = Some (3602879701896397 / 2 ^ 57) \<and>
   (\<exists>r. dragSession ''desk_1'' [Some (10, 10), None, Some (0, 0)] bedDeskScene notDragging
          = Some r \<and>
        \<not> isDragging (store r) \<and> \<not> localDragging (localState r) \<and>
        furniture (store r) = [bed, desk] \<and> \<not> placeSound r) \<and>
   (\<exists>r. dragSession ''desk_1'' [Some (10, 10)] bedDeskScene notDragging = Some r \<and>
        \<not> isDragging (store r) \<and> \<not> localDragging (localState r) \<and>
        furniture (store r) = [bed, desk\<lparr>position := (1.9, 0, 1.7)\<rparr>] \<and> placeSound r)"
proof -
  let ?room = "\<lparr> room_width = 5, room_length = 4, room_height = 2.8 \<rparr>"
  let ?cell = "3602879701896397 / 2 ^ 57 :: real"
  have ri: "renderedItem ''desk_1'' bedDeskScene = Some desk"
    by (simp add: renderedItem_def bedDeskScene_def initialState_def bed_def desk_def)
  have fg: "fineGrid bedDeskScene desk = Some ?cell"
    by (rule fineGrid_tenth [OF large_tenth(1) large_tenth(3)])
  have revert: "\<exists>r. dragSession ''desk_1'' [Some (10, 10), None, Some (0, 0)] bedDeskScene
          notDragging = Some r \<and>
        \<not> isDragging (store r) \<and> \<not> localDragging (localState r) \<and>
        furniture (store r) = [bed, desk] \<and> \<not> placeSound r"
  proof -
    from drag_session_commit_or_revert [OF ri, of notDragging "[Some (10, 10), None, Some (0, 0)]"]
    obtain r0 where
      start: "dragStart ''desk_1'' bedDeskScene notDragging = Some r0"
      and "memoOut r0 = Some (position desk)"
      and ended: "\<forall>r1. dragMoves ''desk_1'' [Some (10, 10), None, Some (0, 0)] r0 = Some r1 \<longrightarrow>
         memoOut r1 = Some (position desk) \<and>
         (\<exists>item1 r.
            renderedItem ''desk_1'' (store r1) = Some item1 \<and>
            dragRelease ''desk_1'' r1 = Some r \<and>
            dragSession ''desk_1'' [Some (10, 10), None, Some (0, 0)] bedDeskScene notDragging = Some r \<and>
            \<not> isDragging (store r) \<and> \<not> localDragging (localState r) \<and>
            (if checkCollision (store r1) item1 (posX (position item1)) (posY (position item1))
                  (posZ (position item1))
             then furniture (store r) =
                    map (\<lambda>f. if item_id f = ''desk_1'' then f\<lparr>position := position desk\<rparr> else f)
                      (furniture (store r1)) \<and>
                  renderedItem ''desk_1'' (store r) = Some (item1\<lparr>position := position desk\<rparr>) \<and>
                  \<not> placeSound r
             else furniture (store r) = furniture (store r1) \<and>
                  renderedItem ''desk_1'' (store r) = Some item1 \<and>
                  placeSound r))"
      and runs: "\<forall>cell. fineGrid bedDeskScene desk = Some cell \<and> 1 / 2 ^ 1022 \<le> \<bar>cell\<bar> \<and>
           \<bar>cell\<bar> \<le> 2 ^ 900 \<and>
           (\<forall>q. Some q \<in> set [Some (10, 10), None, Some (0, 0)] \<longrightarrow>
              \<bar>fst q\<bar> \<le> 2 ^ 49 * \<bar>cell\<bar> \<and> \<bar>snd q\<bar> \<le> 2 ^ 49 * \<bar>cell\<bar>) \<longrightarrow>
         (\<exists>r1. dragMoves ''desk_1'' [Some (10, 10), None, Some (0, 0)] r0 = Some r1)"
      by (elim exE conjE)
    have near: "\<forall>q. Some q \<in> set [Some (10, 10), None, Some (0, 0)] \<longrightarrow>
        \<bar>fst q\<bar> \<le> 2 ^ 49 * \<bar>?cell\<bar> \<and> \<bar>snd q\<bar> \<le> 2 ^ 49 * \<bar>?cell\<bar>"
      by auto
    have normal: "1 / 2 ^ 1022 \<le> \<bar>?cell\<bar>" "\<bar>?cell\<bar> \<le> 2 ^ 900"
      by simp_all
    from runs [rule_format, of ?cell] fg normal near
    obtain r1 where moves: "dragMoves ''desk_1'' [Some (10, 10), None, Some (0, 0)] r0 = Some r1"
      by blast
    from ended [rule_format, OF moves] obtain item1 r where
      item1: "renderedItem ''desk_1'' (store r1) = Some item1"
      and session: "dragSession ''desk_1'' [Some (10, 10), None, Some (0, 0)] bedDeskScene notDragging = Some r"
      and flags: "\<not> isDragging (store r)" "\<not> localDragging (localState r)"
      and outcome: "if checkCollision (store r1) item1 (posX (position item1))
            (posY (position item1)) (posZ (position item1))
         then furniture (store r) =
              map (\<lambda>f. if item_id f = ''desk_1'' then f\<lparr>position := position desk\<rparr> else f)
                (furniture (store r1)) \<and>
              renderedItem ''desk_1'' (store r) = Some (item1\<lparr>position := position desk\<rparr>) \<and>
            \<not> placeSound r
         else furniture (store r) = furniture (store r1) \<and>
              renderedItem ''desk_1'' (store r) = Some item1 \<and> placeSound r"
      by blast
    from start have r0: "roomDimensions (store r0) = ?room" "detailModeTarget (store r0) = None"
      "gridSize (store r0) = 0.1" "furniture (store r0) = [bed, desk\<lparr>position := (2, 0, 1.5)\<rparr>]"
      unfolding dragStart_eq [OF ri]
      by (auto simp add: setSelectedId_def setIsDragging_def bedDeskScene_def initialState_def
            desk_def)
    from desk_step [OF r0 desk_dragMove(1) [OF r0(1-3)], of "[None, Some (0, 0)]"] obtain ra where
      ra: "dragMoves ''desk_1'' [Some (10, 10), None, Some (0, 0)] r0
             = dragMoves ''desk_1'' [None, Some (0, 0)] ra"
      "roomDimensions (store ra) = ?room" "detailModeTarget (store ra) = None"
      "gridSize (store ra) = 0.1" "furniture (store ra) = [bed, desk\<lparr>position := (1.9, 0, 1.7)\<rparr>]"
      by blast
    from desk_idle [OF ra(5), of "[Some (0, 0)]"] obtain rn where
      rn: "dragMoves ''desk_1'' [None, Some (0, 0)] ra = dragMoves ''desk_1'' [Some (0, 0)] rn"
      "store rn = store ra"
      by blast
    note sn = ra(2-5) [folded rn(2)]
    from desk_step [OF sn desk_dragMove(2) [OF sn(1-3)], of "[]"] obtain rb where
      rb: "dragMoves ''desk_1'' [Some (0, 0)] rn = dragMoves ''desk_1'' [] rb"
      "detailModeTarget (store rb) = None"
      "furniture (store rb) = [bed, desk\<lparr>position := (0, 0, 0)\<rparr>]"
      by blast
    from moves ra(1) rn(1) rb(1) have r1: "r1 = rb"
      by simp
    from item1 have i1: "item1 = desk\<lparr>position := (0, 0, 0)\<rparr>"
      by (simp add: r1 renderedItem_def rb(3) bed_def desk_def)
    have c: "checkCollision (store r1) item1 (posX (position item1)) (posY (position item1))
               (posZ (position item1))"
      using desk_onto_bed [OF rb(3) rb(2)] by (simp add: r1 i1 posX_def posY_def posZ_def)
    from outcome c have "furniture (store r) =
              map (\<lambda>f. if item_id f = ''desk_1'' then f\<lparr>position := position desk\<rparr> else f)
                (furniture (store r1))" "\<not> placeSound r"
      by simp_all
    then have "furniture (store r) = [bed, desk]" "\<not> placeSound r"
      by (simp_all add: r1 rb(3) bed_def desk_def)
    with session flags show ?thesis
      by blast
  qed
  have commit: "\<exists>r. dragSession ''desk_1'' [Some (10, 10)] bedDeskScene notDragging = Some r \<and>
        \<not> isDragging (store r) \<and> \<not> localDragging (localState r) \<and>
        furniture (store r) = [bed, desk\<lparr>position := (1.9, 0, 1.7)\<rparr>] \<and> placeSound r"
  proof -
    from drag_session_commit_or_revert [OF ri, of notDragging "[Some (10, 10)]"]
    obtain r0 where
      start: "dragStart ''desk_1'' bedDeskScene notDragging = Some r0"
      and "memoOut r0 = Some (position desk)"
      and ended: "\<forall>r1. dragMoves ''desk_1'' [Some (10, 10)] r0 = Some r1 \<longrightarrow>
         memoOut r1 = Some (position desk) \<and>
         (\<exists>item1 r.
            renderedItem ''desk_1'' (store r1) = Some item1 \<and>
            dragRelease ''desk_1'' r1 = Some r \<and>
            dragSession ''desk_1'' [Some (10, 10)] bedDeskScene notDragging = Some r \<and>
            \<not> isDragging (store r) \<and> \<not> localDragging (localState r) \<and>
            (if checkCollision (store r1) item1 (posX (position item1)) (posY (position item1))
                  (posZ (position item1))
             then furniture (store r) =
                    map (\<lambda>f. if item_id f = ''desk_1'' then f\<lparr>position := position desk\<rparr> else f)
                      (furniture (store r1)) \<and>
                  renderedItem ''desk_1'' (store r) = Some (item1\<lparr>position := position desk\<rparr>) \<and>
                  \<not> placeSound r
             else furniture (store r) = furniture (store r1) \<and>
                  renderedItem ''desk_1'' (store r) = Some item1 \<and>
                  placeSound r))"
      and runs: "\<forall>cell. fineGrid bedDeskScene desk = Some cell \<and> 1 / 2 ^ 1022 \<le> \<bar>cell\<bar> \<and>
           \<bar>cell\<bar> \<le> 2 ^ 900 \<and>
           (\<forall>q. Some q \<in> set [Some (10, 10)] \<longrightarrow>
              \<bar>fst q\<bar> \<le> 2 ^ 49 * \<bar>cell\<bar> \<and> \<bar>snd q\<bar> \<le> 2 ^ 49 * \<bar>cell\<bar>) \<longrightarrow>
         (\<exists>r1. dragMoves ''desk_1'' [Some (10, 10)] r0 = Some r1)"
      by (elim exE conjE)
    have near: "\<forall>q. Some q \<in> set [Some (10, 10)] \<longrightarrow>
        \<bar>fst q\<bar> \<le> 2 ^ 49 * \<bar>?cell\<bar> \<and> \<bar>snd q\<bar> \<le> 2 ^ 49 * \<bar>?cell\<bar>"
      by auto
    have normal: "1 / 2 ^ 1022 \<le> \<bar>?cell\<bar>" "\<bar>?cell\<bar> \<le> 2 ^ 900"
      by simp_all
    from runs [rule_format, of ?cell] fg normal near
    obtain r1 where moves: "dragMoves ''desk_1'' [Some (10, 10)] r0 = Some r1"
      by blast
    from ended [rule_format, OF moves] obtain item1 r where
      item1: "renderedItem ''desk_1'' (store r1) = Some item1"
      and session: "dragSession ''desk_1'' [Some (10, 10)] bedDeskScene notDragging = Some r"
      and flags: "\<not> isDragging (store r)" "\<not> localDragging (localState r)"
      and outcome: "if checkCollision (store r1) item1 (posX (position item1))
            (posY (position item1)) (posZ (position item1))
         then furniture (store r) =
              map (\<lambda>f. if item_id f = ''desk_1'' then f\<lparr>position := position desk\<rparr> else f)
                (furniture (store r1)) \<and>
              renderedItem ''desk_1'' (store r) = Some (item1\<lparr>position := position desk\<rparr>) \<and>
            \<not> placeSound r
         else furniture (store r) = furniture (store r1) \<and>
              renderedItem ''desk_1'' (store r) = Some item1 \<and> placeSound r"
      by blast
    from start have r0: "roomDimensions (store r0) = ?room" "detailModeTarget (store r0) = None"
      "gridSize (store r0) = 0.1" "furniture (store r0) = [bed, desk\<lparr>position := (2, 0, 1.5)\<rparr>]"
      unfolding dragStart_eq [OF ri]
      by (auto simp add: setSelectedId_def setIsDragging_def bedDeskScene_def initialState_def
            desk_def)
    from desk_step [OF r0 desk_dragMove(1) [OF r0(1-3)], of "[]"] obtain ra where
      ra: "dragMoves ''desk_1'' [Some (10, 10)] r0 = dragMoves ''desk_1'' [] ra"
      "detailModeTarget (store ra) = None"
      "furniture (store ra) = [bed, desk\<lparr>position := (1.9, 0, 1.7)\<rparr>]"
      by blast
    from moves ra(1) have r1: "r1 = ra"
      by simp
    from item1 have i1: "item1 = desk\<lparr>position := (1.9, 0, 1.7)\<rparr>"
      by (simp add: r1 renderedItem_def ra(3) bed_def desk_def)
    have c: "\<not> checkCollision (store r1) item1 (posX (position item1)) (posY (position item1))
               (posZ (position item1))"
      using desk_beside_bed [OF ra(3) ra(2)] by (simp add: r1 i1 posX_def posY_def posZ_def)
    from outcome c have "furniture (store r) = furniture (store r1)" "placeSound r"
      by simp_all
    then have "furniture (store r) = [bed, desk\<lparr>position := (1.9, 0, 1.7)\<rparr>]" "placeSound r"
      by (simp_all add: r1 ra(3))
    with session flags show ?thesis
      by blast
  qed
  from ri fg revert commit show ?thesis
    by (intro conjI)
qed

section \<open>Properties of the row arrangement\<close>

lemma placeRow_other: "item_id f \<notin> item_id ` set bs \<Longrightarrow> placeRow bs x y z f = f"
  by (induction bs arbitrary: x) simp_all

lemma arrangeRowLoop_furniture:
  "distinct (map item_id bs) \<Longrightarrow>
   furniture (arrangeRowLoop bs x y z st) = map (placeRow bs x y z) (furniture st)"
proof (induction bs arbitrary: x st)
  case Nil
  then show ?case by (simp add: map_idI)
next
  case (Cons b bs)
  let ?upd = "\<lambda>f. if item_id f = item_id b
                   then f\<lparr>position := (x + spineWidth b / 2, y, z), orientation := Some Upright\<rparr>
                   else f"
  let ?st2 = "updateFurnitureOrientation (item_id b) Upright
                (updateFurniturePosition (item_id b) (x + spineWidth b / 2, y, z) st)"
  have f2: "furniture ?st2 = map ?upd (furniture st)"
    by (simp add: updateFurnitureOrientation_def updateFurniturePosition_def)
  have notin: "item_id b \<notin> item_id ` set bs"
    using Cons.prems by simp
  have step: "placeRow bs (x + spineWidth b + 0.005) y z (?upd f) = placeRow (b # bs) x y z f" for f
  proof (cases "item_id f = item_id b")
    case True
    then have "item_id (?upd f) \<notin> item_id ` set bs"
      using notin by simp
    then have "placeRow bs (x + spineWidth b + 0.005) y z (?upd f) = ?upd f"
      by (rule placeRow_other)
    with True show ?thesis by simp
  next
    case False
    then show ?thesis by simp
  qed
  have "furniture (arrangeRowLoop (b # bs) x y z st)
          = furniture (arrangeRowLoop bs (x + spineWidth b + 0.005) y z ?st2)"
    by (simp add: Let_def)
  also have "\<dots> = map (placeRow bs (x + spineWidth b + 0.005) y z) (furniture ?st2)"
    using Cons.prems by (intro Cons.IH) simp
  also have "\<dots> = map (\<lambda>f. placeRow bs (x + spineWidth b + 0.005) y z (?upd f)) (furniture st)"
    unfolding f2 by (simp add: comp_def)
  also have "\<dots> = map (placeRow (b # bs) x y z) (furniture st)"
    using step by presburger
  finally show ?case .
qed

lemma placeRow_nth:
  "distinct (map item_id bs) \<Longrightarrow> i < length bs \<Longrightarrow> item_id f = item_id (bs ! i) \<Longrightarrow>
   placeRow bs x y z f =
     f\<lparr>position := (x + (\<Sum>j<i. spineWidth (bs ! j) + 0.005) + spineWidth (bs ! i) / 2, y, z),
       orientation := Some Upright\<rparr>"
proof (induction bs arbitrary: i x)
  case Nil
  then show ?case by simp
next
  case (Cons b bs)
  show ?case
  proof (cases i)
    case 0
    with Cons.prems show ?thesis by simp
  next
    case (Suc i')
    with Cons.prems have i': "i' < length bs" and idf: "item_id f = item_id (bs ! i')"
      by simp_all
    from Cons.prems(1) i' have "item_id (bs ! i') \<noteq> item_id b"
      by (metis distinct.simps(2) image_eqI list.simps(9) nth_mem set_map)
    with idf have ne: "item_id f \<noteq> item_id b" by simp
    have d: "distinct (map item_id bs)" using Cons.prems(1) by simp
    have "placeRow (b # bs) x y z f = placeRow bs (x + spineWidth b + 0.005) y z f"
      using ne by simp
    also have "\<dots> = f\<lparr>position :=
                       (x + spineWidth b + 0.005 + (\<Sum>j<i'. spineWidth (bs ! j) + 0.005)
                          + spineWidth (bs ! i') / 2, y, z),
                      orientation := Some Upright\<rparr>"
      by (rule Cons.IH [OF d i' idf])
    also have "x + spineWidth b + 0.005 + (\<Sum>j<i'. spineWidth (bs ! j) + 0.005)
                 = x + (\<Sum>j<i. spineWidth ((b # bs) ! j) + 0.005)"
      unfolding Suc by (simp add: sum.lessThan_Suc_shift del: sum.lessThan_Suc)
    finally show ?thesis using Suc by simp
  qed
qed

lemma arrangeRow_furniture:
  assumes "targetFurniture st = Some host" and "getBooksOnFurniture st host \<noteq> []"
  shows "arrangeRow st =
           arrangeRowLoop (getBooksOnFurniture st host)
             (posX (position host) - width (dimensions host) / 2 + 0.05)
             (posY (position host) + 0.02) (posZ (position host)) (saveForUndo st)"
  using assms by (simp add: arrangeRow_def Let_def)

lemma arrangeRow_no_books:
  assumes "targetFurniture st = Some host" and "getBooksOnFurniture st host = []"
  shows "arrangeRow st = st"
  using assms by (simp add: arrangeRow_def Let_def)

lemma saveForUndo_furniture: "furniture (saveForUndo st) = furniture st"
  by (simp add: saveForUndo_def Let_def)

text \<open>
  C9, as the claim states it, fails by two constants: the row starts 0.05 inside the host's
  left edge, and the books are put 0.02 above the host's base height. One book of spine
  0.03 on the shelf 0.8 wide at the origin is centred at \<open>x = -0.335\<close> and \<open>y = 0.02\<close>,
  not at \<open>x = -0.385\<close> and \<open>y = 0\<close>.
\<close>

theorem arrangeRow_layout_counterexample:
  "targetFurniture oneBookScene = Some bookshelf \<and>
   getBooksOnFurniture oneBookScene bookshelf = [book ''book_1'' (0.1, 0.5, 0)] \<and>
   map position (furniture (arrangeRow oneBookScene)) = [(0, 0, 0), (- 0.335, 0.02, 0)] \<and>
   posX (position (furniture (arrangeRow oneBookScene) ! 1))
     \<noteq> posX (position bookshelf) - width (dimensions bookshelf) / 2
         + spineWidth (book ''book_1'' (0.1, 0.5, 0)) / 2 \<and>
   posY (position (furniture (arrangeRow oneBookScene) ! 1)) \<noteq> posY (position bookshelf)"
  by (simp add: arrangeRow_def targetFurniture_def getBooksOnFurniture_def saveForUndo_def
        updateFurniturePosition_def updateFurnitureOrientation_def spineWidth_def isBookType_def
        oneBookScene_def shelfScene_def initialState_def bookshelf_def book_def
        posX_def posY_def posZ_def Let_def)

text \<open>
  C9, amended. With distinct furniture ids, \<open>arrangeRow\<close> on a host keeps every item
  that is not one of its books, and puts the books (the book-type items near the host, in
  the order of the furniture list) in a row from left to right: book \<open>i\<close> is centred at
  the host's left edge plus 0.05, plus the spine widths of the books before it and 0.005
  for each of them, plus half its own spine width; its height is the host's base height
  plus 0.02, its \<open>z\<close> the host's centre, its orientation upright, and nothing else of it
  changes.
\<close>

theorem arrangeRow_layout:
  assumes dist: "distinct (map item_id (furniture st))"
    and host: "targetFurniture st = Some host"
    and books: "books = getBooksOnFurniture st host"
    and k: "k < length (furniture st)"
  shows "length (furniture (arrangeRow st)) = length (furniture st) \<and>
         (furniture st ! k \<notin> set books \<longrightarrow> furniture (arrangeRow st) ! k = furniture st ! k) \<and>
         (\<forall>i<length books. books ! i = furniture st ! k \<longrightarrow>
            furniture (arrangeRow st) ! k =
              (books ! i)\<lparr>position :=
                  (posX (position host) - width (dimensions host) / 2 + 0.05
                     + (\<Sum>j<i. spineWidth (books ! j) + 0.005) + spineWidth (books ! i) / 2,
                   posY (position host) + 0.02,
                   posZ (position host)),
                orientation := Some Upright\<rparr>)"
proof (cases "books = []")
  case True
  with host books have "arrangeRow st = st"
    by (simp add: arrangeRow_no_books)
  with True show ?thesis by simp
next
  case False
  let ?x = "posX (position host) - width (dimensions host) / 2 + 0.05"
  let ?y = "posY (position host) + 0.02"
  let ?z = "posZ (position host)"
  have sub: "set books \<subseteq> set (furniture st)"
    using books by (auto simp add: getBooksOnFurniture_def)
  have db: "distinct (map item_id books)"
    using dist books by (simp add: getBooksOnFurniture_def distinct_map_filter)
  have inj: "inj_on item_id (set (furniture st))"
    using dist by (simp add: distinct_map)
  have "arrangeRow st = arrangeRowLoop books ?x ?y ?z (saveForUndo st)"
    using host books False by (simp add: arrangeRow_furniture)
  then have fur: "furniture (arrangeRow st) = map (placeRow books ?x ?y ?z) (furniture st)"
    using db by (simp add: arrangeRowLoop_furniture saveForUndo_furniture)
  let ?f = "furniture st ! k"
  have fk: "furniture (arrangeRow st) ! k = placeRow books ?x ?y ?z ?f"
    using fur k by simp
  have mem: "?f \<in> set (furniture st)"
    using k by simp
  have other: "furniture (arrangeRow st) ! k = ?f" if "?f \<notin> set books"
  proof -
    have "item_id ?f \<notin> item_id ` set books"
    proof
      assume "item_id ?f \<in> item_id ` set books"
      then obtain b where b: "b \<in> set books" "item_id ?f = item_id b" by blast
      with sub have "b \<in> set (furniture st)" by blast
      with inj mem b(2) have "?f = b" by (simp add: inj_on_def)
      with b(1) that show False by simp
    qed
    then show ?thesis using fk by (simp add: placeRow_other)
  qed
  have placed: "furniture (arrangeRow st) ! k =
              (books ! i)\<lparr>position :=
                  (?x + (\<Sum>j<i. spineWidth (books ! j) + 0.005) + spineWidth (books ! i) / 2,
                   ?y, ?z),
                orientation := Some Upright\<rparr>"
    if "i < length books" and "books ! i = ?f" for i
  proof -
    have "placeRow books ?x ?y ?z ?f =
            ?f\<lparr>position :=
                  (?x + (\<Sum>j<i. spineWidth (books ! j) + 0.005) + spineWidth (books ! i) / 2,
                   ?y, ?z),
                orientation := Some Upright\<rparr>"
      using db that by (intro placeRow_nth) simp_all
    with fk that(2) show ?thesis by simp
  qed
  from fur other placed show ?thesis by simp
qed

lemma rowScene_books:
  "[book ''book_1'' (0.1, 0.5, 0), thickBook] = getBooksOnFurniture rowScene bookshelf"
  by (simp add: getBooksOnFurniture_def rowScene_def shelfScene_def initialState_def
        bookshelf_def book_def thickBook_def isBookType_def posX_def posZ_def Let_def)

lemma rowScene_target: "targetFurniture rowScene = Some bookshelf"
  by (simp add: targetFurniture_def rowScene_def shelfScene_def initialState_def bookshelf_def)

lemma rowScene_distinct: "distinct (map item_id (furniture rowScene))"
  by (simp add: rowScene_def shelfScene_def initialState_def bookshelf_def book_def thickBook_def)

theorem arrangeRow_layout_witness:
  "distinct (map item_id (furniture rowScene)) \<and>
   targetFurniture rowScene = Some bookshelf \<and>
   getBooksOnFurniture rowScene bookshelf = [book ''book_1'' (0.1, 0.5, 0), thickBook] \<and>
   furniture rowScene ! 2 = thickBook \<and>
   furniture (arrangeRow rowScene) ! 2
     = thickBook\<lparr>position := (- 0.2985, 0.02, 0), orientation := Some Upright\<rparr>"
proof -
  have k: "2 < length (furniture rowScene)"
    by (simp add: rowScene_def shelfScene_def)
  have f2: "furniture rowScene ! 2 = thickBook"
    by (simp add: rowScene_def shelfScene_def numeral_2_eq_2)
  from arrangeRow_layout [OF rowScene_distinct rowScene_target rowScene_books k]
  have "\<forall>i<length [book ''book_1'' (0.1, 0.5, 0), thickBook].
          [book ''book_1'' (0.1, 0.5, 0), thickBook] ! i = furniture rowScene ! 2 \<longrightarrow>
            furniture (arrangeRow rowScene) ! 2 =
              ([book ''book_1'' (0.1, 0.5, 0), thickBook] ! i)\<lparr>position :=
                  (posX (position bookshelf) - width (dimensions bookshelf) / 2 + 0.05
                     + (\<Sum>j<i. spineWidth ([book ''book_1'' (0.1, 0.5, 0), thickBook] ! j) + 0.005)
                     + spineWidth ([book ''book_1'' (0.1, 0.5, 0), thickBook] ! i) / 2,
                   posY (position bookshelf) + 0.02,
                   posZ (position bookshelf)),
                orientation := Some Upright\<rparr>"
    by blast
  from this [rule_format, of 1] f2
  have "furniture (arrangeRow rowScene) ! 2
          = thickBook\<lparr>position := (- 0.2985, 0.02, 0), orientation := Some Upright\<rparr>"
    by (simp add: spineWidth_def book_def thickBook_def bookshelf_def posX_def posY_def posZ_def)
  with rowScene_distinct rowScene_target rowScene_books f2 show ?thesis by simp
qed

section \<open>Properties of the import\<close>

text \<open>A text that does not parse, or that parses to \<open>null\<close>, is rejected and nothing changes.\<close>

lemma importRoom_parse_failure: "importRoom SyntaxError st = (False, st)"
  by (simp add: importRoom_def)

lemma importRoom_null: "importRoom (Parsed JNull) st = (False, st)"
  by (simp add: importRoom_def)

text \<open>
  C3. The claim asks that a document without room dimensions or furniture is rejected
  with the store unchanged. The source does not look at the fields: the empty object
  \<open>{}\<close> is accepted, and the store's room dimensions and furniture become \<open>undefined\<close>.
\<close>

theorem importRoom_accepts_missing_fields:
  "importRoom (Parsed (JObject [])) st =
     (True,
      st\<lparr>raw_roomDimensions := Undefined,
         raw_furniture := Undefined,
         raw_scannedItems := Value (JArray []),
         raw_gridSize := Value (JNumber 0.25),
         raw_selectedId := Value JNull,
         raw_selectedType := Value JNull\<rparr>)"
  by (simp add: importRoom_def orElse_def)

end
